theory Spec2Isabelle
  imports Complex_Main "HOL-Library.Word"
begin

unbundle bit_operations_syntax

section \<open>GafferImage::Resample (src/src/GafferImage/Resample.cpp)\<close>

text \<open>
  A shallow embedding of the utilities and of the hash and compute methods of the
  Resample node. Conventions of the embedding:
  \<^item> \<open>float\<close> values are modelled as \<open>real\<close>: the arithmetic is exact, and NaN, the
    infinities and rounding are outside the model;
  \<^item> \<open>int\<close> values are modelled as \<open>int\<close>; in \<open>ratioAndOffset\<close>, which computes with
    the coordinates of arbitrary data windows, the wrap-around of the 32-bit arithmetic
    is written out (\<open>int32\<close>); the coordinates of tiles and filter taps are unbounded;
  \<^item> an exception is the \<open>Inl\<close> branch of a result of type \<open>error + 'a\<close>;
  \<^item> the libraries the file is compiled against (Imath, OpenImageIO, IECore) and the
    classes of GafferImage whose code is in other files (Sampler, ImagePlug,
    ImageProcessor) are either written out from their documented behaviour or taken as
    parameters; each such place says so.
\<close>

subsection \<open>Imath: Vec2 and Box\<close>

datatype 'a Vec2 = Vec2 (vx: 'a) (vy: 'a)

type_synonym V2i = "int Vec2"
type_synonym V2f = "real Vec2"

datatype 'a Box = Box (bmin: "'a Vec2") (bmax: "'a Vec2")

type_synonym Box2i = "int Box"
type_synonym Box2f = "real Box"

text \<open>\<open>V2f( const V2i & )\<close>: the converting constructor.\<close>

definition V2f :: "V2i \<Rightarrow> V2f" where
  "V2f v = Vec2 (real_of_int (vx v)) (real_of_int (vy v))"

text \<open>
  \<open>V2i( const V2f & )\<close>: the converting constructor in the other direction. Imath
  (ImathVec.h) writes it \<^verbatim>\<open>x = T (v.x); y = T (v.y);\<close> and the C++ conversion
  from \<open>float\<close> to \<open>int\<close> discards the fractional part: it truncates toward zero.
  A value beyond the range of \<open>int\<close> is undefined behaviour in C++ and is outside the
  model.
\<close>

definition float_to_int :: "real \<Rightarrow> int" where
  "float_to_int x = (if 0 \<le> x then \<lfloor>x\<rfloor> else \<lceil>x\<rceil>)"

definition V2i_of_V2f :: "V2f \<Rightarrow> V2i" where
  "V2i_of_V2f v = Vec2 (float_to_int (vx v)) (float_to_int (vy v))"

text \<open>
  The value that an \<open>int\<close> expression has after the 32-bit arithmetic has wrapped
  around: the representative of \<open>x\<close> modulo \<open>2 ^ 32\<close> between \<open>- 2 ^ 31\<close> and
  \<open>2 ^ 31 - 1\<close>.
\<close>

definition int32 :: "int \<Rightarrow> int" where
  "int32 x = (x + 2147483648) mod 4294967296 - 2147483648"

text \<open>
  \<open>Imath::Box::isEmpty()\<close> and \<open>Imath::Box::size()\<close>, which \<open>ratioAndOffset\<close>
  calls. Imath (ImathBox.h) defines a box as empty when its max is below its min on
  some axis, and its size as
  \<^verbatim>\<open>if (isEmpty()) return T (0); return max - min;\<close>
  that is, the zero vector for an empty box. \<open>size_Box2f\<close> is the size of a \<open>Box2f\<close>
  and \<open>size_Box2i\<close> the size of a \<open>Box2i\<close>, where the subtraction is one of \<open>int\<close>.
\<close>

definition isEmpty :: "('a::linordered_idom) Box \<Rightarrow> bool" where
  "isEmpty b = (vx (bmax b) < vx (bmin b) \<or> vy (bmax b) < vy (bmin b))"

definition size_Box2f :: "Box2f \<Rightarrow> V2f" where
  "size_Box2f b =
     (if isEmpty b then Vec2 0 0
      else Vec2 (vx (bmax b) - vx (bmin b)) (vy (bmax b) - vy (bmin b)))"

definition size_Box2i :: "Box2i \<Rightarrow> V2i" where
  "size_Box2i b =
     (if isEmpty b then Vec2 0 0
      else Vec2 (int32 (vx (bmax b) - vx (bmin b))) (int32 (vy (bmax b) - vy (bmin b))))"

subsection \<open>OpenImageIO: filters\<close>

text \<open>
  An \<open>OIIO::Filter2D\<close> object, as far as Resample.cpp looks at it: its name, its width
  and height, whether it is separable, the two-dimensional response \<open>operator()\<close>
  (here \<open>call\<close>) and the one-dimensional responses \<open>xfilt\<close> and \<open>yfilt\<close>.
\<close>

record Filter2D =
  name :: string
  width :: real
  height :: real
  separable :: bool
  call :: "real \<Rightarrow> real \<Rightarrow> real"
  xfilt :: "real \<Rightarrow> real"
  yfilt :: "real \<Rightarrow> real"

text \<open>\<open>OIIO::FilterDesc\<close>: an entry of the table of registered filters.\<close>

datatype FilterDesc = FilterDesc (fd_name: string) (fd_width: real)

text \<open>
  The filter registry of OpenImageIO is a parameter of the model: the table read by
  \<open>Filter2D::num_filters\<close> and \<open>Filter2D::get_filterdesc\<close>, and the factory
  \<open>Filter2D::create( name, width, height )\<close>.
\<close>

record OIIO =
  filterdescs :: "FilterDesc list"
  create :: "string \<Rightarrow> real \<Rightarrow> real \<Rightarrow> Filter2D"

text \<open>
  \<open>OIIO::floorfrac( x, &xint )\<close> stores the floor of \<open>x\<close> in \<open>xint\<close> and returns the
  fractional part \<open>x - floor x\<close>. The model returns the pair (fraction, floor).
\<close>

definition floorfrac :: "real \<Rightarrow> real \<times> int" where
  "floorfrac x = (x - real_of_int \<lfloor>x\<rfloor>, \<lfloor>x\<rfloor>)"

subsection \<open>The node and its plugs\<close>

datatype error = Exception string

text \<open>The three image plugs of a Resample node.\<close>

datatype ImagePlug = inPlug | outPlug | horizontalPassPlug

text \<open>
  The values of the plugs that the methods read: the destination data window
  (\<open>dataWindowPlug\<close>), the filter name, the requested filter width, the bounding mode
  handed to the sampler, the debug mode, and the data window of the input image
  (\<open>inPlug()->dataWindowPlug()\<close>).
\<close>

record Resample =
  dataWindowPlug :: Box2f
  filterPlug :: string
  filterWidthPlug :: V2f
  boundingModePlug :: int
  debugPlug :: int
  inPlug_dataWindowPlug :: Box2i

text \<open>
  Modelled from the spec: the enumeration \<open>Resample::Debug\<close> is declared in the header
  GafferImage/Resample.h, which is not among the sources. The spec lists the debug modes
  as Off, HorizontalPass(Only), (Force)SinglePass, and the constructor of the node
  declares the debug plug with minimum \<open>Off\<close> and maximum \<open>SinglePass\<close>; the enumerators
  are numbered in that order.
\<close>

definition Off :: int where "Off = 0"
definition HorizontalPass :: int where "HorizontalPass = 1"
definition SinglePass :: int where "SinglePass = 2"

subsection \<open>Utilities\<close>

text \<open>The bitmask \<open>enum Passes\<close>; \<open>requiredPasses\<close> returns it as \<open>unsigned\<close>.\<close>

definition Horizontal :: "32 word" where "Horizontal = 1"
definition Vertical :: "32 word" where "Vertical = 2"
definition Both :: "32 word" where "Both = Horizontal OR Vertical"

text \<open>
  \<open>requiredPasses( resample, image, filter )\<close>. The test
  \<open>image == image->parent<ImageNode>()->outPlug()\<close> asks whether \<open>image\<close> is the main
  output plug of the node.
\<close>

definition requiredPasses :: "Resample \<Rightarrow> ImagePlug \<Rightarrow> Filter2D \<Rightarrow> 32 word" where
  "requiredPasses resample image' filter' =
     (let debug = debugPlug resample in
      if debug = HorizontalPass then Horizontal
      else if debug = SinglePass then Horizontal OR Vertical
      else if image' = outPlug then (if separable filter' then Vertical else Both)
      else Horizontal)"

text \<open>\<open>box2fToBox2i\<close>: rounds min down and max up.\<close>

definition box2fToBox2i :: "Box2f \<Rightarrow> Box2i" where
  "box2fToBox2i b =
     Box (Vec2 \<lfloor>vx (bmin b)\<rfloor> \<lfloor>vy (bmin b)\<rfloor>) (Vec2 \<lceil>vx (bmax b)\<rceil> \<lceil>vy (bmax b)\<rceil>)"

text \<open>
  \<open>ratioAndOffset\<close>: the scale and offset that convert output coordinates to input
  coordinates. The source writes them through two reference parameters; the model
  returns the pair \<open>(ratio, offset)\<close>. The function has no \<open>throw\<close> and no early return,
  so the model has no \<open>Inl\<close> branch.

  The operators of Imath's \<open>Vec2<T>\<close> take a \<open>Vec2<T>\<close> on the right, and the other
  vector type converts to it implicitly, so the type of the left operand decides the
  arithmetic of each expression:
  \<^item> \<open>dstDataWindow.size() + V2i( 1 )\<close> is \<open>V2f + V2i\<close>: an addition of \<open>float\<close>;
  \<^item> \<open>srcDataWindow.size() + V2i( 1 )\<close> is \<open>V2i + V2i\<close>: an addition of \<open>int\<close>, whose
    result is converted to \<open>V2f\<close>;
  \<^item> \<open>srcDataWindow.min - dstDataWindow.min / ratio\<close> is \<open>V2i - V2f\<close>: the quotient is
    converted to \<open>V2i\<close>, which truncates it toward zero, the subtraction is one of
    \<open>int\<close>, and its result is converted to \<open>V2f\<close> by the assignment. The offset is a
    whole number on both axes.

  A division by a source size of zero, which the \<open>int\<close> arithmetic yields only for a
  source window that spans the whole range of \<open>int\<close> on an axis, gives an infinity in
  the source and is outside the model.
\<close>

definition ratioAndOffset :: "Box2f \<Rightarrow> Box2i \<Rightarrow> error + (V2f \<times> V2f)" where
  "ratioAndOffset dstDataWindow srcDataWindow =
     (let dstSize = Vec2 (vx (size_Box2f dstDataWindow) + 1) (vy (size_Box2f dstDataWindow) + 1);
          srcSize = V2f (Vec2 (int32 (vx (size_Box2i srcDataWindow) + 1))
                              (int32 (vy (size_Box2i srcDataWindow) + 1)));
          ratio = Vec2 (vx dstSize / vx srcSize) (vy dstSize / vy srcSize);
          quotient = V2i_of_V2f (Vec2 (vx (bmin dstDataWindow) / vx ratio)
                                      (vy (bmin dstDataWindow) / vy ratio));
          offset = V2f (Vec2 (int32 (vx (bmin srcDataWindow) - vx quotient))
                             (int32 (vy (bmin srcDataWindow) - vy quotient)))
      in Inr (ratio, offset))"

text \<open>
  \<open>inputRegion\<close>: the input region handed to the sampler for an output tile.
  \<open>ImagePlug::tileSize()\<close> is defined in another file and is the parameter \<open>tileSize\<close>.
  The corner \<open>tileOrigin + V2f( ImagePlug::tileSize() )\<close> is \<open>V2i + V2f\<close>: the tile size
  is converted to \<open>V2i\<close>, which leaves a whole number as it is, the addition is one of
  \<open>int\<close>, and the constructor of the box converts its result to \<open>V2f\<close>.
\<close>

definition inputRegion :: "int \<Rightarrow> V2i \<Rightarrow> 32 word \<Rightarrow> V2f \<Rightarrow> V2f \<Rightarrow> Filter2D \<Rightarrow> Box2i" where
  "inputRegion tileSize tileOrigin passes ratio offset filter' =
     (let outputRegion = Box (V2f tileOrigin)
                             (V2f (Vec2 (vx tileOrigin + tileSize) (vy tileOrigin + tileSize)));
          filterRadius = Vec2 (width filter' / 2) (height filter' / 2);
          result = outputRegion;
          result = (if passes AND Horizontal \<noteq> 0
                    then Box (Vec2 (vx (bmin result) / vx ratio + vx offset - vx filterRadius) (vy (bmin result)))
                             (Vec2 (vx (bmax result) / vx ratio + vx offset + vx filterRadius) (vy (bmax result)))
                    else result);
          result = (if passes AND Vertical \<noteq> 0
                    then Box (Vec2 (vx (bmin result)) (vy (bmin result) / vy ratio + vy offset - vy filterRadius))
                             (Vec2 (vx (bmax result)) (vy (bmax result) / vy ratio + vy offset + vy filterRadius))
                    else result)
      in box2fToBox2i result)"

text \<open>
  \<open>createFilter\<close>. \<open>c_str\<close> is the C string of a \<open>std::string\<close>: its characters up to
  the first NUL; \<open>strcmp\<close> and the message of the exception read the filter name
  through it. \<open>filterName\<close> is the local variable of that name: the requested name, or
  the default chosen from the ratio when the requested name is empty.
\<close>

definition c_str :: "string \<Rightarrow> string" where
  "c_str s = takeWhile (\<lambda>c. c \<noteq> CHR 0x00) s"

definition filterName :: "string \<Rightarrow> V2f \<Rightarrow> string" where
  "filterName name' ratio =
     (if name' = ''''
      then (if vx ratio > 1 \<or> vy ratio > 1 then ''blackman-harris'' else ''lanczos3'')
      else c_str name')"

text \<open>
  The loop over the table of registered filters: the first entry whose name is
  \<open>filterName\<close> decides the widths, and the loop returns from there.
\<close>

fun createFilter_loop ::
    "OIIO \<Rightarrow> FilterDesc list \<Rightarrow> string \<Rightarrow> V2f \<Rightarrow> V2f \<Rightarrow> Filter2D option" where
  "createFilter_loop oiio [] fName filterWidth ratio = None"
| "createFilter_loop oiio (fd # fds) fName filterWidth ratio =
     (if fd_name fd = fName
      then Some (create oiio fName
                   (if vx filterWidth > 0 then vx filterWidth else fd_width fd * max 1 (vx ratio))
                   (if vy filterWidth > 0 then vy filterWidth else fd_width fd * max 1 (vy ratio)))
      else createFilter_loop oiio fds fName filterWidth ratio)"

definition createFilter :: "OIIO \<Rightarrow> string \<Rightarrow> V2f \<Rightarrow> V2f \<Rightarrow> error + Filter2D" where
  "createFilter oiio name' filterWidth ratio =
     (case createFilter_loop oiio (filterdescs oiio) (filterName name' ratio) filterWidth ratio of
        Some f \<Rightarrow> Inr f
      | None \<Rightarrow> Inl (Exception (''Unknown filter \"'' @ filterName name' ratio @ ''\"'')))"

subsection \<open>The sampler and the hash\<close>

text \<open>
  \<open>IECore::MurmurHash\<close> belongs to a library. Its interface used here is \<open>append\<close>,
  for a C string, a \<open>float\<close> and a \<open>V2i\<close>. The model keeps the sequence of the appended
  values, of which the digest is a function.
\<close>

datatype hashed = String string | Float real | V2i V2i | Opaque nat

type_synonym MurmurHash = "hashed list"

definition h_append :: "hashed \<Rightarrow> MurmurHash \<Rightarrow> MurmurHash" where
  "h_append x h = h @ [x]"

text \<open>
  \<open>GafferImage::Sampler\<close> is defined in other files. An object of the class is
  modelled by what the methods of Resample.cpp call on it: \<open>sample( x, y )\<close>, and
  \<open>hash( h )\<close>, which the spec describes as folding into the accumulator every source
  pixel the sampler could touch; the field \<open>hash\<close> is the sequence of values that the
  call appends. The constructor \<open>Sampler( plug, channelName, sampleWindow, boundingMode )\<close>
  is a parameter \<open>newSampler\<close> of the methods below; the images on the plugs are part
  of that parameter.
\<close>

record Sampler =
  sample :: "int \<Rightarrow> int \<Rightarrow> real"
  hash :: "hashed list"

text \<open>The two entries of the context that the methods read.\<close>

record Context =
  ctx_tileOrigin :: V2i
  ctx_channelName :: string

subsection \<open>Resample::hashChannelData\<close>

text \<open>
  \<open>ImageProcessor::hashChannelData( parent, context, h )\<close>, the method of the base
  class called first, is the parameter \<open>base\<close>.
\<close>

definition hashChannelData ::
    "(ImagePlug \<Rightarrow> Context \<Rightarrow> MurmurHash \<Rightarrow> MurmurHash) \<Rightarrow> OIIO \<Rightarrow>
     (ImagePlug \<Rightarrow> string \<Rightarrow> Box2i \<Rightarrow> int \<Rightarrow> Sampler) \<Rightarrow> int \<Rightarrow>
     Resample \<Rightarrow> ImagePlug \<Rightarrow> Context \<Rightarrow> MurmurHash \<Rightarrow> error + MurmurHash" where
  "hashChannelData base oiio newSampler tileSize node parent context h =
     (let h = base parent context h;
          srcDataWindow = inPlug_dataWindowPlug node;
          dstDataWindow = dataWindowPlug node
      in case ratioAndOffset dstDataWindow srcDataWindow of
           Inl e \<Rightarrow> Inl e
         | Inr (ratio, offset) \<Rightarrow>
        (case createFilter oiio (filterPlug node) (filterWidthPlug node) ratio of
           Inl e \<Rightarrow> Inl e
         | Inr filter' \<Rightarrow>
             let h = h_append (String (name filter')) h;
                 passes = requiredPasses node parent filter';
                 h = (if passes AND Horizontal \<noteq> 0
                      then h_append (Float (vx offset))
                             (h_append (Float (vx ratio)) (h_append (Float (width filter')) h))
                      else h);
                 h = (if passes AND Vertical \<noteq> 0
                      then h_append (Float (vy offset))
                             (h_append (Float (vy ratio)) (h_append (Float (height filter')) h))
                      else h);
                 tileOrigin = ctx_tileOrigin context;
                 sampler = newSampler (if passes = Vertical then horizontalPassPlug else inPlug)
                             (ctx_channelName context)
                             (inputRegion tileSize tileOrigin passes ratio offset filter')
                             (boundingModePlug node);
                 h = h @ hash sampler;
                 h = h_append (V2i tileOrigin) h
             in Inr h))"

subsection \<open>Resample::computeChannelData\<close>

text \<open>
  The state of the evaluation of a tile: the vector \<open>resultData\<close>, the iterator \<open>pIt\<close>
  as an offset into it, and two logs kept for the proofs: \<open>writes\<close>, the offsets at
  which \<open>*pIt = ...\<close> stored a value, and \<open>samples\<close>, the coordinates handed to
  \<open>sampler.sample\<close>, both in the order of execution.
\<close>

record tile =
  resultData :: "real list"
  pIt :: nat
  writes :: "nat list"
  samples :: "(int \<times> int) list"

text \<open>
  The body of the innermost loops: one filter tap. The accumulator is the triple of
  \<open>v\<close>, \<open>totalW\<close> and the coordinates sampled so far for this pixel. A tap of weight
  zero is skipped (\<open>continue\<close>).
\<close>

fun tap_Both ::
    "Filter2D \<Rightarrow> V2f \<Rightarrow> Sampler \<Rightarrow> V2i \<Rightarrow> V2f \<Rightarrow> V2i \<Rightarrow>
     real \<times> real \<times> (int \<times> int) list \<Rightarrow> real \<times> real \<times> (int \<times> int) list" where
  "tap_Both filter' ratio sampler iPI iPF fP (v, totalW, ss) =
     (let w = call filter' (vx ratio * (real_of_int (vx fP) - (vx iPF - 0.5)))
                           (vy ratio * (real_of_int (vy fP) - (vy iPF - 0.5)))
      in if w = 0 then (v, totalW, ss)
         else (v + w * sample sampler (vx iPI + vx fP) (vy iPI + vy fP), totalW + w,
               ss @ [(vx iPI + vx fP, vy iPI + vy fP)]))"

fun tap_Horizontal ::
    "Filter2D \<Rightarrow> V2f \<Rightarrow> Sampler \<Rightarrow> int \<Rightarrow> real \<Rightarrow> int \<Rightarrow> int \<Rightarrow>
     real \<times> real \<times> (int \<times> int) list \<Rightarrow> real \<times> real \<times> (int \<times> int) list" where
  "tap_Horizontal filter' ratio sampler iXI iXF oPy fX (v, totalW, ss) =
     (let w = xfilt filter' (vx ratio * (real_of_int fX - (iXF - 0.5)))
      in if w = 0 then (v, totalW, ss)
         else (v + w * sample sampler (iXI + fX) oPy, totalW + w, ss @ [(iXI + fX, oPy)]))"

fun tap_Vertical ::
    "Filter2D \<Rightarrow> V2f \<Rightarrow> Sampler \<Rightarrow> int \<Rightarrow> real \<Rightarrow> int \<Rightarrow> int \<Rightarrow>
     real \<times> real \<times> (int \<times> int) list \<Rightarrow> real \<times> real \<times> (int \<times> int) list" where
  "tap_Vertical filter' ratio sampler iYI iYF oPx fY (v, totalW, ss) =
     (let w = yfilt filter' (vy ratio * (real_of_int fY - (iYF - 0.5)))
      in if w = 0 then (v, totalW, ss)
         else (v + w * sample sampler oPx (iYI + fY), totalW + w, ss @ [(oPx, iYI + fY)]))"

text \<open>
  The filter loops of one output pixel, from \<open>v = 0\<close> and \<open>totalW = 0\<close>:
  \<open>for( f = -filterRadius; f <= filterRadius; ++f )\<close> runs over \<open>[- r .. r]\<close>.
\<close>

definition pixel_Both ::
    "Filter2D \<Rightarrow> V2f \<Rightarrow> Sampler \<Rightarrow> V2i \<Rightarrow> V2i \<Rightarrow> V2f \<Rightarrow> real \<times> real \<times> (int \<times> int) list" where
  "pixel_Both filter' ratio sampler filterRadius iPI iPF =
     fold (\<lambda>fPy. fold (\<lambda>fPx. tap_Both filter' ratio sampler iPI iPF (Vec2 fPx fPy))
                     [- vx filterRadius .. vx filterRadius])
          [- vy filterRadius .. vy filterRadius] (0, 0, [])"

definition pixel_Horizontal ::
    "Filter2D \<Rightarrow> V2f \<Rightarrow> Sampler \<Rightarrow> V2i \<Rightarrow> int \<Rightarrow> real \<Rightarrow> int \<Rightarrow> real \<times> real \<times> (int \<times> int) list" where
  "pixel_Horizontal filter' ratio sampler filterRadius iXI iXF oPy =
     fold (tap_Horizontal filter' ratio sampler iXI iXF oPy)
          [- vx filterRadius .. vx filterRadius] (0, 0, [])"

definition pixel_Vertical ::
    "Filter2D \<Rightarrow> V2f \<Rightarrow> Sampler \<Rightarrow> V2i \<Rightarrow> int \<Rightarrow> real \<Rightarrow> int \<Rightarrow> real \<times> real \<times> (int \<times> int) list" where
  "pixel_Vertical filter' ratio sampler filterRadius iYI iYF oPx =
     fold (tap_Vertical filter' ratio sampler iYI iYF oPx)
          [- vy filterRadius .. vy filterRadius] (0, 0, [])"

text \<open>
  The end of the body of the pixel loops: \<open>if( totalW > 0.0f ) *pIt = v / totalW;\<close>
  and \<open>++pIt\<close>.
\<close>

fun store :: "real \<times> real \<times> (int \<times> int) list \<Rightarrow> tile \<Rightarrow> tile" where
  "store (v, totalW, ss) t =
     (let t = (if totalW > 0
               then t\<lparr> resultData := (resultData t)[pIt t := v / totalW],
                       writes := writes t @ [pIt t] \<rparr>
               else t)
      in t\<lparr> pIt := pIt t + 1, samples := samples t @ ss \<rparr>)"

text \<open>
  The three branches. \<open>for( oP.y = tileBound.min.y; oP.y < tileBound.max.y; ++oP.y )\<close>
  runs over \<open>[min.y .. max.y - 1]\<close>, and likewise for \<open>oP.x\<close>.
\<close>

definition compute_Both ::
    "Filter2D \<Rightarrow> V2f \<Rightarrow> V2f \<Rightarrow> Sampler \<Rightarrow> V2i \<Rightarrow> Box2i \<Rightarrow> tile \<Rightarrow> tile" where
  "compute_Both filter' ratio offset sampler filterRadius tileBound =
     fold (\<lambda>oPy.
        let iPy = (real_of_int oPy + 0.5) / vy ratio + vy offset;
            iPFy = fst (floorfrac iPy);
            iPIy = snd (floorfrac iPy)
        in fold (\<lambda>oPx.
             let iPx = (real_of_int oPx + 0.5) / vx ratio + vx offset;
                 iPFx = fst (floorfrac iPx);
                 iPIx = snd (floorfrac iPx)
             in store (pixel_Both filter' ratio sampler filterRadius
                         (Vec2 iPIx iPIy) (Vec2 iPFx iPFy)))
           [vx (bmin tileBound) .. vx (bmax tileBound) - 1])
       [vy (bmin tileBound) .. vy (bmax tileBound) - 1]"

definition compute_Horizontal ::
    "Filter2D \<Rightarrow> V2f \<Rightarrow> V2f \<Rightarrow> Sampler \<Rightarrow> V2i \<Rightarrow> Box2i \<Rightarrow> tile \<Rightarrow> tile" where
  "compute_Horizontal filter' ratio offset sampler filterRadius tileBound =
     fold (\<lambda>oPy.
        fold (\<lambda>oPx.
             let iX = (real_of_int oPx + 0.5) / vx ratio + vx offset;
                 iXF = fst (floorfrac iX);
                 iXI = snd (floorfrac iX)
             in store (pixel_Horizontal filter' ratio sampler filterRadius iXI iXF oPy))
           [vx (bmin tileBound) .. vx (bmax tileBound) - 1])
       [vy (bmin tileBound) .. vy (bmax tileBound) - 1]"

definition compute_Vertical ::
    "Filter2D \<Rightarrow> V2f \<Rightarrow> V2f \<Rightarrow> Sampler \<Rightarrow> V2i \<Rightarrow> Box2i \<Rightarrow> tile \<Rightarrow> tile" where
  "compute_Vertical filter' ratio offset sampler filterRadius tileBound =
     fold (\<lambda>oPy.
        let iY = (real_of_int oPy + 0.5) / vy ratio + vy offset;
            iYF = fst (floorfrac iY);
            iYI = snd (floorfrac iY)
        in fold (\<lambda>oPx. store (pixel_Vertical filter' ratio sampler filterRadius iYI iYF oPx))
           [vx (bmin tileBound) .. vx (bmax tileBound) - 1])
       [vy (bmin tileBound) .. vy (bmax tileBound) - 1]"

text \<open>
  \<open>computeTile\<close> is \<open>computeChannelData\<close> from the declaration of \<open>filterRadius\<close> to
  the end: the allocation of the result, zero-initialised by \<open>resize\<close>, and the
  dispatch on \<open>passes\<close>. A value of \<open>passes\<close> that is none of the three runs no loop.
\<close>

definition computeTile ::
    "int \<Rightarrow> 32 word \<Rightarrow> V2f \<Rightarrow> V2f \<Rightarrow> Filter2D \<Rightarrow> Sampler \<Rightarrow> V2i \<Rightarrow> tile" where
  "computeTile tileSize passes ratio offset filter' sampler tileOrigin =
     (let filterRadius = Vec2 \<lceil>width filter' / (2 * vx ratio)\<rceil> \<lceil>height filter' / (2 * vy ratio)\<rceil>;
          tileBound = Box tileOrigin (Vec2 (vx tileOrigin + tileSize) (vy tileOrigin + tileSize));
          t = \<lparr> resultData = replicate (nat (tileSize * tileSize)) 0, pIt = 0,
                writes = [], samples = [] \<rparr>
      in if passes = Both then compute_Both filter' ratio offset sampler filterRadius tileBound t
         else if passes = Horizontal
           then compute_Horizontal filter' ratio offset sampler filterRadius tileBound t
         else if passes = Vertical
           then compute_Vertical filter' ratio offset sampler filterRadius tileBound t
         else t)"

definition computeChannelData ::
    "OIIO \<Rightarrow> (ImagePlug \<Rightarrow> string \<Rightarrow> Box2i \<Rightarrow> int \<Rightarrow> Sampler) \<Rightarrow> int \<Rightarrow>
     Resample \<Rightarrow> string \<Rightarrow> V2i \<Rightarrow> ImagePlug \<Rightarrow> error + tile" where
  "computeChannelData oiio newSampler tileSize node channelName tileOrigin parent =
     (case ratioAndOffset (dataWindowPlug node) (inPlug_dataWindowPlug node) of
        Inl e \<Rightarrow> Inl e
      | Inr (ratio, offset) \<Rightarrow>
     (case createFilter oiio (filterPlug node) (filterWidthPlug node) ratio of
        Inl e \<Rightarrow> Inl e
      | Inr filter' \<Rightarrow>
          let passes = requiredPasses node parent filter';
              sampler = newSampler (if passes = Vertical then horizontalPassPlug else inPlug)
                          channelName
                          (inputRegion tileSize tileOrigin passes ratio offset filter')
                          (boundingModePlug node)
          in Inr (computeTile tileSize passes ratio offset filter' sampler tileOrigin)))"

subsection \<open>The weighted average of the spec\<close>

text \<open>
  These definitions follow the words of the spec, not the code. For an output pixel
  \<open>(ox, oy)\<close> the spec maps the pixel centre to the source coordinate
  \<open>ix = (ox + 0.5) / ratio.x + offset.x\<close>, splits it into its floor \<open>ix_i\<close> and fraction
  \<open>ix_f\<close>, runs over the support window \<open>[-radius, +radius]\<close> on each required axis,
  evaluates the kernel at \<open>ratio.x * (fx - (ix_f - 0.5))\<close>, drops the taps of weight
  zero, and outputs the sum of weight times sample divided by the sum of the weights
  when that sum is positive, and zero otherwise. A tap is the pair of its weight and
  its sample.
\<close>

definition spec_average :: "(real \<times> real) list \<Rightarrow> real" where
  "spec_average taps =
     (let sw = (\<Sum>(w, s)\<leftarrow>taps. w)
      in if sw > 0 then (\<Sum>(w, s)\<leftarrow>taps. w * s) / sw else 0)"

definition spec_taps_Both ::
    "Filter2D \<Rightarrow> V2f \<Rightarrow> V2f \<Rightarrow> Sampler \<Rightarrow> V2i \<Rightarrow> int \<Rightarrow> int \<Rightarrow> (real \<times> real) list" where
  "spec_taps_Both filter' ratio offset sampler radius ox oy =
     (let ix = (real_of_int ox + 0.5) / vx ratio + vx offset;
          ix_i = \<lfloor>ix\<rfloor>;
          ix_f = ix - real_of_int ix_i;
          iy = (real_of_int oy + 0.5) / vy ratio + vy offset;
          iy_i = \<lfloor>iy\<rfloor>;
          iy_f = iy - real_of_int iy_i
      in filter (\<lambda>(w, s). w \<noteq> 0)
           (concat (map (\<lambda>fy. map (\<lambda>fx.
               (call filter' (vx ratio * (real_of_int fx - (ix_f - 0.5)))
                             (vy ratio * (real_of_int fy - (iy_f - 0.5))),
                sample sampler (ix_i + fx) (iy_i + fy)))
              [- vx radius .. vx radius]) [- vy radius .. vy radius])))"

definition spec_taps_Horizontal ::
    "Filter2D \<Rightarrow> V2f \<Rightarrow> V2f \<Rightarrow> Sampler \<Rightarrow> V2i \<Rightarrow> int \<Rightarrow> int \<Rightarrow> (real \<times> real) list" where
  "spec_taps_Horizontal filter' ratio offset sampler radius ox oy =
     (let ix = (real_of_int ox + 0.5) / vx ratio + vx offset;
          ix_i = \<lfloor>ix\<rfloor>;
          ix_f = ix - real_of_int ix_i
      in filter (\<lambda>(w, s). w \<noteq> 0)
           (map (\<lambda>fx. (xfilt filter' (vx ratio * (real_of_int fx - (ix_f - 0.5))),
                       sample sampler (ix_i + fx) oy))
              [- vx radius .. vx radius]))"

definition spec_taps_Vertical ::
    "Filter2D \<Rightarrow> V2f \<Rightarrow> V2f \<Rightarrow> Sampler \<Rightarrow> V2i \<Rightarrow> int \<Rightarrow> int \<Rightarrow> (real \<times> real) list" where
  "spec_taps_Vertical filter' ratio offset sampler radius ox oy =
     (let iy = (real_of_int oy + 0.5) / vy ratio + vy offset;
          iy_i = \<lfloor>iy\<rfloor>;
          iy_f = iy - real_of_int iy_i
      in filter (\<lambda>(w, s). w \<noteq> 0)
           (map (\<lambda>fy. (yfilt filter' (vy ratio * (real_of_int fy - (iy_f - 0.5))),
                       sample sampler ox (iy_i + fy)))
              [- vy radius .. vy radius]))"

text \<open>
  The taps of the strategy selected by \<open>passes\<close>, and the sum of the weights of a
  list of taps.
\<close>

definition spec_taps ::
    "32 word \<Rightarrow> Filter2D \<Rightarrow> V2f \<Rightarrow> V2f \<Rightarrow> Sampler \<Rightarrow> V2i \<Rightarrow> int \<Rightarrow> int \<Rightarrow> (real \<times> real) list" where
  "spec_taps passes filter' ratio offset sampler radius ox oy =
     (if passes = Both then spec_taps_Both filter' ratio offset sampler radius ox oy
      else if passes = Horizontal then spec_taps_Horizontal filter' ratio offset sampler radius ox oy
      else spec_taps_Vertical filter' ratio offset sampler radius ox oy)"

definition spec_weight :: "(real \<times> real) list \<Rightarrow> real" where
  "spec_weight taps = (\<Sum>(w, s)\<leftarrow>taps. w)"

subsection \<open>Auxiliary notions for the proofs\<close>

text \<open>
  \<open>tile_pixel\<close> is the accumulator that the selected branch computes for the output
  pixel \<open>(oPx, oPy)\<close>, so that the three branches are one double loop over
  \<open>store\<close>. \<open>writes_ok\<close> is the invariant of the log of writes: the offsets written
  are strictly increasing and lie below the iterator.
\<close>

definition tile_pixel ::
    "32 word \<Rightarrow> Filter2D \<Rightarrow> V2f \<Rightarrow> V2f \<Rightarrow> Sampler \<Rightarrow> V2i \<Rightarrow> int \<Rightarrow> int \<Rightarrow>
     real \<times> real \<times> (int \<times> int) list" where
  "tile_pixel passes filter' ratio offset sampler radius oPx oPy =
     (let iPx = (real_of_int oPx + 0.5) / vx ratio + vx offset;
          iPy = (real_of_int oPy + 0.5) / vy ratio + vy offset
      in if passes = Both
           then pixel_Both filter' ratio sampler radius
                  (Vec2 (snd (floorfrac iPx)) (snd (floorfrac iPy)))
                  (Vec2 (fst (floorfrac iPx)) (fst (floorfrac iPy)))
         else if passes = Horizontal
           then pixel_Horizontal filter' ratio sampler radius
                  (snd (floorfrac iPx)) (fst (floorfrac iPx)) oPy
         else pixel_Vertical filter' ratio sampler radius
                  (snd (floorfrac iPy)) (fst (floorfrac iPy)) oPx)"

definition writes_ok :: "tile \<Rightarrow> bool" where
  "writes_ok t = (sorted_wrt (<) (writes t) \<and> (\<forall>k\<in>set (writes t). k < pIt t))"

subsection \<open>Concrete inputs\<close>

text \<open>
  A small registry with the three names used below, and a factory that builds a box
  filter of the requested size (weight 1 inside the support, 0 outside, as the box
  filter of OpenImageIO) whatever the name.
\<close>

definition box_filter :: "string \<Rightarrow> real \<Rightarrow> real \<Rightarrow> Filter2D" where
  "box_filter n w h =
     \<lparr> name = n, width = w, height = h, separable = True,
       call = (\<lambda>x y. if \<bar>x\<bar> \<le> w / 2 \<and> \<bar>y\<bar> \<le> h / 2 then 1 else 0),
       xfilt = (\<lambda>x. if \<bar>x\<bar> \<le> w / 2 then 1 else 0),
       yfilt = (\<lambda>y. if \<bar>y\<bar> \<le> h / 2 then 1 else 0) \<rparr>"

definition oiio0 :: OIIO where
  "oiio0 = \<lparr> filterdescs = [FilterDesc ''box'' 1, FilterDesc ''blackman-harris'' 3,
                             FilterDesc ''lanczos3'' 6],
             create = box_filter \<rparr>"

definition node0 :: Resample where
  "node0 = \<lparr> dataWindowPlug = Box (Vec2 0 0) (Vec2 1 1), filterPlug = ''box'',
             filterWidthPlug = Vec2 0 0, boundingModePlug = 0, debugPlug = Off,
             inPlug_dataWindowPlug = Box (Vec2 0 0) (Vec2 1 1) \<rparr>"

text \<open>
  A sampler whose value at \<open>(x, y)\<close> is \<open>x * x + y\<close> whatever the plug and the window,
  and a node that requests a filter two pixels wide.
\<close>

definition newSampler0 :: "ImagePlug \<Rightarrow> string \<Rightarrow> Box2i \<Rightarrow> int \<Rightarrow> Sampler" where
  "newSampler0 plug channelName sampleWindow boundingMode =
     \<lparr> sample = (\<lambda>x y. real_of_int (x * x + y)),
       hash = [Opaque (case plug of inPlug \<Rightarrow> 0 | outPlug \<Rightarrow> 1 | horizontalPassPlug \<Rightarrow> 2)] \<rparr>"

definition node1 :: Resample where
  "node1 = node0\<lparr> filterWidthPlug := Vec2 2 2 \<rparr>"

text \<open>
  A node that doubles a source image of 2 by 2 pixels with a box filter half an output
  pixel wide: every tap of the box filter falls outside the support.
\<close>

definition node2 :: Resample where
  "node2 = \<lparr> dataWindowPlug = Box (Vec2 0 0) (Vec2 3 3),
             filterPlug = ''box'', filterWidthPlug = Vec2 (1 / 2) (1 / 2), boundingModePlug = 0,
             debugPlug = Off, inPlug_dataWindowPlug = Box (Vec2 0 0) (Vec2 1 1) \<rparr>"

text \<open>A source data window that is empty on the horizontal axis.\<close>

definition zero_size_window :: Box2i where
  "zero_size_window = Box (Vec2 0 0) (Vec2 (- 1) 7)"

text \<open>
  A node that halves a source image of 256 by 256 pixels with a box filter four
  output pixels wide.
\<close>

definition node3 :: Resample where
  "node3 = \<lparr> dataWindowPlug = Box (Vec2 0 0) (Vec2 127 127), filterPlug = ''box'',
             filterWidthPlug = Vec2 4 4, boundingModePlug = 0, debugPlug = Off,
             inPlug_dataWindowPlug = Box (Vec2 0 0) (Vec2 255 255) \<rparr>"

text \<open>
  A base-class hash that appends one value, a context for the tile at the origin, and
  the node \<open>node0\<close> with a destination data window that is taller.
\<close>

definition base0 :: "ImagePlug \<Rightarrow> Context \<Rightarrow> MurmurHash \<Rightarrow> MurmurHash" where
  "base0 parent context h = h_append (Opaque 7) h"

definition context0 :: Context where
  "context0 = \<lparr> ctx_tileOrigin = Vec2 0 0, ctx_channelName = ''R'' \<rparr>"

definition node0_tall :: Resample where
  "node0_tall = node0\<lparr> dataWindowPlug := Box (Vec2 0 0) (Vec2 1 3) \<rparr>"

text \<open>
  Two nodes with an empty filter name that differ in the vertical extent of the
  destination data window only: the first halves the image on both axes, the second
  halves it horizontally and doubles it vertically. And the node \<open>node1\<close> with a
  taller destination window and another filter height.
\<close>

definition node5a :: Resample where
  "node5a = \<lparr> dataWindowPlug = Box (Vec2 0 0) (Vec2 0 0), filterPlug = '''',
              filterWidthPlug = Vec2 0 0, boundingModePlug = 0, debugPlug = Off,
              inPlug_dataWindowPlug = Box (Vec2 0 0) (Vec2 1 1) \<rparr>"

definition node5b :: Resample where
  "node5b = node5a\<lparr> dataWindowPlug := Box (Vec2 0 0) (Vec2 0 3) \<rparr>"

definition node1_tall :: Resample where
  "node1_tall = node1\<lparr> dataWindowPlug := Box (Vec2 0 0) (Vec2 1 3), filterWidthPlug := Vec2 2 5 \<rparr>"

text \<open>
  The Mitchell-Netravali kernel as OpenImageIO implements its filter \<open>mitchell\<close>: the
  argument is scaled so that the support is the requested width, and the kernel has a
  negative lobe near the edge of the support. A registry offering that filter, a node
  that doubles a source image of 2 by 2 pixels and requests the filter one and a half
  output pixels wide, the same node in the SinglePass debug mode, and a sampler that
  reads 1 everywhere on the input plug.
\<close>

definition mitchell1d :: "real \<Rightarrow> real" where
  "mitchell1d x =
     (let B = 1 / 3; C = 1 / 3; x = \<bar>x\<bar>
      in if x > 1 then 0
         else let x = 2 * x
              in if x \<ge> 1
                 then ((- B - 6 * C) * (x * x * x) + (6 * B + 30 * C) * (x * x)
                        + (- 12 * B - 48 * C) * x + (8 * B + 24 * C)) / 6
                 else ((12 - 9 * B - 6 * C) * (x * x * x) + (- 18 + 12 * B + 6 * C) * (x * x)
                        + (6 - 2 * B)) / 6)"

definition mitchell_filter :: "string \<Rightarrow> real \<Rightarrow> real \<Rightarrow> Filter2D" where
  "mitchell_filter n w h =
     \<lparr> name = n, width = w, height = h, separable = True,
       call = (\<lambda>x y. mitchell1d (x * (2 / w)) * mitchell1d (y * (2 / h))),
       xfilt = (\<lambda>x. mitchell1d (x * (2 / w))),
       yfilt = (\<lambda>y. mitchell1d (y * (2 / h))) \<rparr>"

definition oiio1 :: OIIO where
  "oiio1 = \<lparr> filterdescs = [FilterDesc ''mitchell'' 3], create = mitchell_filter \<rparr>"

definition node6 :: Resample where
  "node6 = \<lparr> dataWindowPlug = Box (Vec2 0 0) (Vec2 3 3),
             filterPlug = ''mitchell'', filterWidthPlug = Vec2 (3 / 2) (3 / 2), boundingModePlug = 0,
             debugPlug = Off, inPlug_dataWindowPlug = Box (Vec2 0 0) (Vec2 1 1) \<rparr>"

definition node6_single :: Resample where
  "node6_single = node6\<lparr> debugPlug := SinglePass \<rparr>"

definition newSampler1 :: "ImagePlug \<Rightarrow> string \<Rightarrow> Box2i \<Rightarrow> int \<Rightarrow> Sampler" where
  "newSampler1 plug channelName sampleWindow boundingMode =
     \<lparr> sample = (\<lambda>x y. if plug = horizontalPassPlug then 0 else 1), hash = [] \<rparr>"

section \<open>Pass planning\<close>

text \<open>
  C7. \<open>requiredPasses\<close> returns Horizontal when the debug mode is HorizontalPass and
  Both when it is SinglePass; in any other debug mode it returns Vertical for the main
  output plug with a separable filter, Both for the main output plug with a filter that
  is not separable, and Horizontal for the intermediate horizontal-pass plug.
\<close>

theorem requiredPasses_cases:
  "(debugPlug resample = HorizontalPass \<longrightarrow> requiredPasses resample image' filter' = Horizontal) \<and>
   (debugPlug resample = SinglePass \<longrightarrow> requiredPasses resample image' filter' = Both) \<and>
   (debugPlug resample \<noteq> HorizontalPass \<and> debugPlug resample \<noteq> SinglePass \<longrightarrow>
      (image' = outPlug \<and> separable filter' \<longrightarrow> requiredPasses resample image' filter' = Vertical) \<and>
      (image' = outPlug \<and> \<not> separable filter' \<longrightarrow> requiredPasses resample image' filter' = Both) \<and>
      (image' = horizontalPassPlug \<longrightarrow> requiredPasses resample image' filter' = Horizontal))"
  by (simp add: requiredPasses_def Both_def HorizontalPass_def SinglePass_def)

theorem requiredPasses_cases_witness:
  "requiredPasses (node0\<lparr>debugPlug := HorizontalPass\<rparr>) outPlug (box_filter ''box'' 1 1) = Horizontal \<and>
   requiredPasses (node0\<lparr>debugPlug := SinglePass\<rparr>) horizontalPassPlug (box_filter ''box'' 1 1) = Both \<and>
   requiredPasses node0 outPlug (box_filter ''box'' 1 1) = Vertical \<and>
   requiredPasses node0 outPlug ((box_filter ''disk'' 1 1)\<lparr>separable := False\<rparr>) = Both \<and>
   requiredPasses node0 horizontalPassPlug (box_filter ''box'' 1 1) = Horizontal \<and>
   Horizontal = 1 \<and> Vertical = 2 \<and> Both = 3"
  using requiredPasses_cases [of "node0\<lparr>debugPlug := HorizontalPass\<rparr>" outPlug "box_filter ''box'' 1 1"]
    requiredPasses_cases [of "node0\<lparr>debugPlug := SinglePass\<rparr>" horizontalPassPlug "box_filter ''box'' 1 1"]
    requiredPasses_cases [of node0 outPlug "box_filter ''box'' 1 1"]
    requiredPasses_cases [of node0 outPlug "(box_filter ''disk'' 1 1)\<lparr>separable := False\<rparr>"]
    requiredPasses_cases [of node0 horizontalPassPlug "box_filter ''box'' 1 1"]
  by (simp add: node0_def box_filter_def Off_def HorizontalPass_def SinglePass_def
      Horizontal_def Vertical_def Both_def)

section \<open>Filter creation\<close>

lemma createFilter_loop_find:
  "createFilter_loop oiio fds n fw ratio =
     map_option (\<lambda>fd. create oiio n
        (if vx fw > 0 then vx fw else fd_width fd * max 1 (vx ratio))
        (if vy fw > 0 then vy fw else fd_width fd * max 1 (vy ratio)))
      (find (\<lambda>fd. fd_name fd = n) fds)"
  by (induction fds) simp_all

lemma c_str_blackman_harris: "c_str ''blackman-harris'' = ''blackman-harris''"
  by (simp add: c_str_def)

lemma c_str_lanczos3: "c_str ''lanczos3'' = ''lanczos3''"
  by (simp add: c_str_def)

text \<open>
  C8. For a filter name found in the table of registered filters (the requested name,
  or the default for an empty name), \<open>createFilter\<close> hands to the factory, on each
  axis, the requested width unchanged when it is greater than 0, and otherwise the
  recommended width of the table entry multiplied by \<open>max 1 ratio\<close> on that axis. At
  ratio 3 an automatic width (0) is three times the recommended width, and an explicit
  width is used as it is whatever the ratio.
\<close>

theorem createFilter_width:
  assumes "find (\<lambda>fd. fd_name fd = filterName name' ratio) (filterdescs oiio) = Some fd"
  shows "createFilter oiio name' filterWidth ratio =
           Inr (create oiio (filterName name' ratio)
                  (if vx filterWidth > 0 then vx filterWidth else fd_width fd * max 1 (vx ratio))
                  (if vy filterWidth > 0 then vy filterWidth else fd_width fd * max 1 (vy ratio)))"
  using assms by (simp add: createFilter_def createFilter_loop_find)

theorem createFilter_width_witness:
  "find (\<lambda>fd. fd_name fd = filterName ''lanczos3'' (Vec2 3 (1 / 2))) (filterdescs oiio0)
     = Some (FilterDesc ''lanczos3'' 6) \<and>
   createFilter oiio0 ''lanczos3'' (Vec2 0 0) (Vec2 3 (1 / 2)) = Inr (box_filter ''lanczos3'' (6 * 3) 6) \<and>
   createFilter oiio0 ''lanczos3'' (Vec2 5 (1 / 4)) (Vec2 3 (1 / 2)) = Inr (box_filter ''lanczos3'' 5 (1 / 4))"
proof -
  have f: "find (\<lambda>fd. fd_name fd = filterName ''lanczos3'' (Vec2 3 (1 / 2))) (filterdescs oiio0)
             = Some (FilterDesc ''lanczos3'' 6)"
    by (simp add: filterName_def c_str_def oiio0_def)
  show ?thesis
    using f createFilter_width [OF f, of "Vec2 0 0"] createFilter_width [OF f, of "Vec2 5 (1 / 4)"]
    by (simp add: oiio0_def filterName_def c_str_def)
qed

text \<open>
  C9. With an empty filter name \<open>createFilter\<close> proceeds as for the name
  \<open>blackman-harris\<close> (the upsizing default) when the ratio exceeds 1 on either axis, and
  as for \<open>lanczos3\<close> (the downsizing default) otherwise, that is when both ratios are
  at most 1. So a horizontal ratio of 2 selects the upsizing default, and a horizontal
  ratio of 1/2 (with a vertical ratio that does not exceed 1) the downsizing default.
\<close>

theorem createFilter_default_kernel:
  "createFilter oiio '''' filterWidth ratio =
     (if vx ratio > 1 \<or> vy ratio > 1
      then createFilter oiio ''blackman-harris'' filterWidth ratio
      else createFilter oiio ''lanczos3'' filterWidth ratio) \<and>
   (vx ratio = 2 \<longrightarrow>
      createFilter oiio '''' filterWidth ratio = createFilter oiio ''blackman-harris'' filterWidth ratio) \<and>
   (vx ratio = 1 / 2 \<and> vy ratio \<le> 1 \<longrightarrow>
      createFilter oiio '''' filterWidth ratio = createFilter oiio ''lanczos3'' filterWidth ratio)"
proof -
  have bh: "filterName ''blackman-harris'' ratio = ''blackman-harris''"
    by (simp add: filterName_def c_str_blackman_harris)
  have lz: "filterName ''lanczos3'' ratio = ''lanczos3''"
    by (simp add: filterName_def c_str_lanczos3)
  have up: "createFilter oiio '''' filterWidth ratio = createFilter oiio ''blackman-harris'' filterWidth ratio"
    if "vx ratio > 1 \<or> vy ratio > 1"
  proof -
    have "filterName '''' ratio = ''blackman-harris''"
      using that by (simp add: filterName_def)
    then show ?thesis
      by (simp only: createFilter_def bh)
  qed
  have down: "createFilter oiio '''' filterWidth ratio = createFilter oiio ''lanczos3'' filterWidth ratio"
    if "\<not> (vx ratio > 1 \<or> vy ratio > 1)"
  proof -
    have "filterName '''' ratio = ''lanczos3''"
      using that by (simp add: filterName_def)
    then show ?thesis
      by (simp only: createFilter_def lz)
  qed
  show ?thesis
    using up down by auto
qed

theorem createFilter_default_kernel_witness:
  "createFilter oiio0 '''' (Vec2 0 0) (Vec2 2 (1 / 2)) = Inr (box_filter ''blackman-harris'' 6 3) \<and>
   createFilter oiio0 '''' (Vec2 0 0) (Vec2 (1 / 2) 1) = Inr (box_filter ''lanczos3'' 6 6)"
  using createFilter_default_kernel [of oiio0 "Vec2 0 0" "Vec2 2 (1 / 2)"]
    createFilter_default_kernel [of oiio0 "Vec2 0 0" "Vec2 (1 / 2) 1"]
  by (simp add: createFilter_def filterName_def c_str_def oiio0_def)

section \<open>The loops over a tile\<close>

lemma store_pIt: "pIt (store a t) = pIt t + 1"
  by (cases a) (simp add: Let_def)

lemma store_length: "length (resultData (store a t)) = length (resultData t)"
  by (cases a) (simp add: Let_def)

lemma store_samples: "samples (store a t) = samples t @ snd (snd a)"
  by (cases a) (simp add: Let_def)

lemma store_writes: "writes (store a t) = writes t @ (if 0 < fst (snd a) then [pIt t] else [])"
  by (cases a) (simp add: Let_def)

lemma store_nth:
  "n < length (resultData t) \<Longrightarrow>
   resultData (store a t) ! n =
     (if n = pIt t \<and> 0 < fst (snd a) then fst a / fst (snd a) else resultData t ! n)"
  by (cases a) (simp add: Let_def nth_list_update)

lemma row_pIt: "pIt (fold (\<lambda>x. store (g x)) xs t) = pIt t + length xs"
  by (induction xs arbitrary: t) (simp_all add: store_pIt)

lemma row_length: "length (resultData (fold (\<lambda>x. store (g x)) xs t)) = length (resultData t)"
  by (induction xs arbitrary: t) (simp_all add: store_length)

lemma row_samples:
  "samples (fold (\<lambda>x. store (g x)) xs t) = samples t @ concat (map (\<lambda>x. snd (snd (g x))) xs)"
  by (induction xs arbitrary: t) (simp_all add: store_samples)

lemma row_writes:
  "writes (fold (\<lambda>x. store (g x)) xs t) =
     writes t @ map (\<lambda>k. pIt t + k) (filter (\<lambda>k. 0 < fst (snd (g (xs ! k)))) [0..<length xs])"
proof (induction xs arbitrary: t rule: rev_induct)
  case Nil
  then show ?case by simp
next
  case (snoc x xs)
  have "filter (\<lambda>k. 0 < fst (snd (g ((xs @ [x]) ! k)))) [0..<length xs]
        = filter (\<lambda>k. 0 < fst (snd (g (xs ! k)))) [0..<length xs]"
    by (rule filter_cong) (simp_all add: nth_append)
  then show ?case
    using snoc by (simp add: store_writes row_pIt)
qed

lemma row_nth:
  "n < length (resultData t) \<Longrightarrow>
   resultData (fold (\<lambda>x. store (g x)) xs t) ! n =
     (if pIt t \<le> n \<and> n < pIt t + length xs \<and> 0 < fst (snd (g (xs ! (n - pIt t))))
      then fst (g (xs ! (n - pIt t))) / fst (snd (g (xs ! (n - pIt t))))
      else resultData t ! n)"
proof (induction xs arbitrary: t rule: rev_induct)
  case Nil
  then show ?case by simp
next
  case (snoc x xs)
  then show ?case
    by (auto simp add: store_nth row_pIt row_length nth_append)
qed


lemma rows_pIt:
  "pIt (fold (\<lambda>y. fold (\<lambda>x. store (G y x)) xs) ys t) = pIt t + length ys * length xs"
  by (induction ys arbitrary: t) (simp_all add: row_pIt)

lemma rows_length:
  "length (resultData (fold (\<lambda>y. fold (\<lambda>x. store (G y x)) xs) ys t)) = length (resultData t)"
  by (induction ys arbitrary: t) (simp_all add: row_length)

lemma rows_samples:
  "samples (fold (\<lambda>y. fold (\<lambda>x. store (G y x)) xs) ys t) =
     samples t @ concat (map (\<lambda>y. concat (map (\<lambda>x. snd (snd (G y x))) xs)) ys)"
  by (induction ys arbitrary: t) (simp_all add: row_samples)

lemma rows_writes:
  "writes (fold (\<lambda>y. fold (\<lambda>x. store (G y x)) xs) ys t) =
     writes t @ concat (map (\<lambda>j. map (\<lambda>k. pIt t + j * length xs + k)
                                    (filter (\<lambda>k. 0 < fst (snd (G (ys ! j) (xs ! k)))) [0..<length xs]))
                        [0..<length ys])"
proof (induction ys arbitrary: t rule: rev_induct)
  case Nil
  then show ?case by simp
next
  case (snoc y ys)
  have eq: "\<And>j. j < length ys \<Longrightarrow> (ys @ [y]) ! j = ys ! j"
    by (simp add: nth_append)
  show ?case
    apply (simp add: snoc row_writes rows_pIt)
    apply (rule arg_cong [where f = concat])
    apply (rule map_cong [OF refl])
    apply (simp add: eq)
    done
qed

lemma rows_nth_below:
  "n < pIt t \<Longrightarrow> n < length (resultData t) \<Longrightarrow>
   resultData (fold (\<lambda>y. fold (\<lambda>x. store (G y x)) xs) ys t) ! n = resultData t ! n"
  by (induction ys arbitrary: t) (simp_all add: row_nth row_pIt row_length)

lemma rows_nth:
  "i < length xs \<Longrightarrow> j < length ys \<Longrightarrow> pIt t + length ys * length xs \<le> length (resultData t) \<Longrightarrow>
   resultData (fold (\<lambda>y. fold (\<lambda>x. store (G y x)) xs) ys t) ! (pIt t + j * length xs + i) =
     (if 0 < fst (snd (G (ys ! j) (xs ! i)))
      then fst (G (ys ! j) (xs ! i)) / fst (snd (G (ys ! j) (xs ! i)))
      else resultData t ! (pIt t + j * length xs + i))"
proof (induction ys arbitrary: t j)
  case Nil
  then show ?case by simp
next
  case (Cons y ys)
  let ?t' = "fold (\<lambda>x. store (G y x)) xs t"
  have p': "pIt ?t' = pIt t + length xs" by (simp add: row_pIt)
  have l': "length (resultData ?t') = length (resultData t)" by (simp add: row_length)
  show ?case
  proof (cases j)
    case 0
    have lt: "pIt t + i < pIt ?t'" using Cons.prems p' by simp
    have ln: "pIt t + i < length (resultData t)" using Cons.prems by simp
    have "resultData (fold (\<lambda>y. fold (\<lambda>x. store (G y x)) xs) ys ?t') ! (pIt t + i)
          = resultData ?t' ! (pIt t + i)"
      using lt ln l' by (intro rows_nth_below) simp_all
    also have "\<dots> = (if 0 < fst (snd (G y (xs ! i)))
                      then fst (G y (xs ! i)) / fst (snd (G y (xs ! i)))
                      else resultData t ! (pIt t + i))"
      using ln Cons.prems by (simp add: row_nth)
    finally show ?thesis using 0 by simp
  next
    case (Suc j')
    have j': "j' < length ys" using Cons.prems Suc by simp
    have bound: "pIt ?t' + length ys * length xs \<le> length (resultData ?t')"
      using Cons.prems p' l' by simp
    have idx: "pIt t + j * length xs + i = pIt ?t' + j' * length xs + i"
      using Suc p' by simp
    have ln: "pIt t + j * length xs + i < length (resultData t)"
    proof -
      have "j * length xs + i < Suc j * length xs" using Cons.prems(1) by simp
      also have "\<dots> \<le> length (y # ys) * length xs"
        using Cons.prems(2) by (intro mult_le_mono1) simp
      finally show ?thesis using Cons.prems(3) by simp
    qed
    have old: "resultData ?t' ! (pIt t + j * length xs + i) = resultData t ! (pIt t + j * length xs + i)"
      using ln Suc by (simp add: row_nth)
    show ?thesis
      using Cons.IH [OF Cons.prems(1) j' bound] Suc old
      by (simp add: idx [symmetric])
  qed
qed

section \<open>One output pixel\<close>

lemma fold_taps:
  assumes step: "\<And>f v tw ss. step f (v, tw, ss) =
            (if W f = 0 then (v, tw, ss) else (v + W f * S f, tw + W f, ss @ [C f]))"
  shows "fold step fs (v, tw, ss) =
           (v + (\<Sum>(w, s)\<leftarrow>filter (\<lambda>(w, s). w \<noteq> 0) (map (\<lambda>f. (W f, S f)) fs). w * s),
            tw + (\<Sum>(w, s)\<leftarrow>filter (\<lambda>(w, s). w \<noteq> 0) (map (\<lambda>f. (W f, S f)) fs). w),
            ss @ map C (filter (\<lambda>f. W f \<noteq> 0) fs))"
  by (induction fs arbitrary: v tw ss) (simp_all add: step algebra_simps)

lemma fold_fold_concat:
  "fold (\<lambda>y. fold (\<lambda>x. step (P x y)) xs) ys a = fold step (concat (map (\<lambda>y. map (\<lambda>x. P x y) xs) ys)) a"
  by (induction ys arbitrary: a) (simp_all add: fold_map comp_def)


lemma pixel_Horizontal_eq:
  "pixel_Horizontal filter' ratio sampler radius iXI iXF oy =
   (let taps = filter (\<lambda>(w, s). w \<noteq> 0)
                 (map (\<lambda>fx. (xfilt filter' (vx ratio * (real_of_int fx - (iXF - 0.5))),
                             sample sampler (iXI + fx) oy))
                    [- vx radius .. vx radius])
    in ((\<Sum>(w, s)\<leftarrow>taps. w * s), (\<Sum>(w, s)\<leftarrow>taps. w),
        map (\<lambda>fx. (iXI + fx, oy))
          (filter (\<lambda>fx. xfilt filter' (vx ratio * (real_of_int fx - (iXF - 0.5))) \<noteq> 0)
             [- vx radius .. vx radius])))"
  unfolding pixel_Horizontal_def Let_def
  by (subst fold_taps [where W = "\<lambda>fx. xfilt filter' (vx ratio * (real_of_int fx - (iXF - 0.5)))"
        and S = "\<lambda>fx. sample sampler (iXI + fx) oy" and C = "\<lambda>fx. (iXI + fx, oy)"])
     (simp_all add: Let_def)

lemma pixel_Vertical_eq:
  "pixel_Vertical filter' ratio sampler radius iYI iYF ox =
   (let taps = filter (\<lambda>(w, s). w \<noteq> 0)
                 (map (\<lambda>fy. (yfilt filter' (vy ratio * (real_of_int fy - (iYF - 0.5))),
                             sample sampler ox (iYI + fy)))
                    [- vy radius .. vy radius])
    in ((\<Sum>(w, s)\<leftarrow>taps. w * s), (\<Sum>(w, s)\<leftarrow>taps. w),
        map (\<lambda>fy. (ox, iYI + fy))
          (filter (\<lambda>fy. yfilt filter' (vy ratio * (real_of_int fy - (iYF - 0.5))) \<noteq> 0)
             [- vy radius .. vy radius])))"
  unfolding pixel_Vertical_def Let_def
  by (subst fold_taps [where W = "\<lambda>fy. yfilt filter' (vy ratio * (real_of_int fy - (iYF - 0.5)))"
        and S = "\<lambda>fy. sample sampler ox (iYI + fy)" and C = "\<lambda>fy. (ox, iYI + fy)"])
     (simp_all add: Let_def)

lemma pixel_Both_eq:
  "pixel_Both filter' ratio sampler radius iPI iPF =
   (let taps = filter (\<lambda>(w, s). w \<noteq> 0)
                 (concat (map (\<lambda>fy. map (\<lambda>fx.
                     (call filter' (vx ratio * (real_of_int fx - (vx iPF - 0.5)))
                                   (vy ratio * (real_of_int fy - (vy iPF - 0.5))),
                      sample sampler (vx iPI + fx) (vy iPI + fy)))
                    [- vx radius .. vx radius]) [- vy radius .. vy radius]))
    in ((\<Sum>(w, s)\<leftarrow>taps. w * s), (\<Sum>(w, s)\<leftarrow>taps. w),
        map (\<lambda>fP. (vx iPI + vx fP, vy iPI + vy fP))
          (filter (\<lambda>fP. call filter' (vx ratio * (real_of_int (vx fP) - (vx iPF - 0.5)))
                                      (vy ratio * (real_of_int (vy fP) - (vy iPF - 0.5))) \<noteq> 0)
             (concat (map (\<lambda>fy. map (\<lambda>fx. Vec2 fx fy) [- vx radius .. vx radius])
                        [- vy radius .. vy radius])))))"
  unfolding pixel_Both_def Let_def
  apply (subst fold_fold_concat [where step = "tap_Both filter' ratio sampler iPI iPF" and P = Vec2])
  apply (subst fold_taps [where W = "\<lambda>fP. call filter' (vx ratio * (real_of_int (vx fP) - (vx iPF - 0.5)))
                                      (vy ratio * (real_of_int (vy fP) - (vy iPF - 0.5)))"
        and S = "\<lambda>fP. sample sampler (vx iPI + vx fP) (vy iPI + vy fP)"
        and C = "\<lambda>fP. (vx iPI + vx fP, vy iPI + vy fP)"])
   apply (simp add: Let_def)
  apply (simp add: map_concat comp_def)
  done

lemma pixel_Horizontal_average:
  "(let a = pixel_Horizontal filter' ratio sampler radius
              (snd (floorfrac ((real_of_int ox + 0.5) / vx ratio + vx offset)))
              (fst (floorfrac ((real_of_int ox + 0.5) / vx ratio + vx offset))) oy
    in if 0 < fst (snd a) then fst a / fst (snd a) else 0) =
   spec_average (spec_taps_Horizontal filter' ratio offset sampler radius ox oy)"
  by (simp add: pixel_Horizontal_eq spec_average_def spec_taps_Horizontal_def floorfrac_def Let_def)

lemma pixel_Vertical_average:
  "(let a = pixel_Vertical filter' ratio sampler radius
              (snd (floorfrac ((real_of_int oy + 0.5) / vy ratio + vy offset)))
              (fst (floorfrac ((real_of_int oy + 0.5) / vy ratio + vy offset))) ox
    in if 0 < fst (snd a) then fst a / fst (snd a) else 0) =
   spec_average (spec_taps_Vertical filter' ratio offset sampler radius ox oy)"
  by (simp add: pixel_Vertical_eq spec_average_def spec_taps_Vertical_def floorfrac_def Let_def)

lemma pixel_Both_average:
  "(let a = pixel_Both filter' ratio sampler radius
              (Vec2 (snd (floorfrac ((real_of_int ox + 0.5) / vx ratio + vx offset)))
                    (snd (floorfrac ((real_of_int oy + 0.5) / vy ratio + vy offset))))
              (Vec2 (fst (floorfrac ((real_of_int ox + 0.5) / vx ratio + vx offset)))
                    (fst (floorfrac ((real_of_int oy + 0.5) / vy ratio + vy offset))))
    in if 0 < fst (snd a) then fst a / fst (snd a) else 0) =
   spec_average (spec_taps_Both filter' ratio offset sampler radius ox oy)"
  by (simp add: pixel_Both_eq spec_average_def spec_taps_Both_def floorfrac_def Let_def)

section \<open>The pixels of a tile\<close>

lemma length_tile_range: "length [a .. a + T - 1] = nat T"
  by simp

lemma nth_tile_range: "i < nat T \<Longrightarrow> [a .. a + T - 1] ! i = a + int i"
  by (subst nth_upto) simp_all

lemma compute_Horizontal_nth:
  assumes "i < nat T" "j < nat T" "pIt t + nat T * nat T \<le> length (resultData t)"
  shows "resultData (compute_Horizontal filter' ratio offset sampler radius
                       (Box origin (Vec2 (vx origin + T) (vy origin + T))) t) ! (pIt t + j * nat T + i) =
         (let a = pixel_Horizontal filter' ratio sampler radius
                    (snd (floorfrac ((real_of_int (vx origin + int i) + 0.5) / vx ratio + vx offset)))
                    (fst (floorfrac ((real_of_int (vx origin + int i) + 0.5) / vx ratio + vx offset)))
                    (vy origin + int j)
          in if 0 < fst (snd a) then fst a / fst (snd a) else resultData t ! (pIt t + j * nat T + i))"
  using assms
    rows_nth [where xs = "[vx origin .. vx origin + T - 1]" and ys = "[vy origin .. vy origin + T - 1]"
      and i = i and j = j and t = t
      and G = "\<lambda>oPy oPx. pixel_Horizontal filter' ratio sampler radius
                    (snd (floorfrac ((real_of_int oPx + 0.5) / vx ratio + vx offset)))
                    (fst (floorfrac ((real_of_int oPx + 0.5) / vx ratio + vx offset))) oPy"]
  by (simp add: compute_Horizontal_def Let_def nth_tile_range)

lemma compute_Vertical_nth:
  assumes "i < nat T" "j < nat T" "pIt t + nat T * nat T \<le> length (resultData t)"
  shows "resultData (compute_Vertical filter' ratio offset sampler radius
                       (Box origin (Vec2 (vx origin + T) (vy origin + T))) t) ! (pIt t + j * nat T + i) =
         (let a = pixel_Vertical filter' ratio sampler radius
                    (snd (floorfrac ((real_of_int (vy origin + int j) + 0.5) / vy ratio + vy offset)))
                    (fst (floorfrac ((real_of_int (vy origin + int j) + 0.5) / vy ratio + vy offset)))
                    (vx origin + int i)
          in if 0 < fst (snd a) then fst a / fst (snd a) else resultData t ! (pIt t + j * nat T + i))"
  using assms
    rows_nth [where xs = "[vx origin .. vx origin + T - 1]" and ys = "[vy origin .. vy origin + T - 1]"
      and i = i and j = j and t = t
      and G = "\<lambda>oPy oPx. pixel_Vertical filter' ratio sampler radius
                    (snd (floorfrac ((real_of_int oPy + 0.5) / vy ratio + vy offset)))
                    (fst (floorfrac ((real_of_int oPy + 0.5) / vy ratio + vy offset))) oPx"]
  by (simp add: compute_Vertical_def Let_def nth_tile_range)

lemma compute_Both_nth:
  assumes "i < nat T" "j < nat T" "pIt t + nat T * nat T \<le> length (resultData t)"
  shows "resultData (compute_Both filter' ratio offset sampler radius
                       (Box origin (Vec2 (vx origin + T) (vy origin + T))) t) ! (pIt t + j * nat T + i) =
         (let a = pixel_Both filter' ratio sampler radius
                    (Vec2 (snd (floorfrac ((real_of_int (vx origin + int i) + 0.5) / vx ratio + vx offset)))
                          (snd (floorfrac ((real_of_int (vy origin + int j) + 0.5) / vy ratio + vy offset))))
                    (Vec2 (fst (floorfrac ((real_of_int (vx origin + int i) + 0.5) / vx ratio + vx offset)))
                          (fst (floorfrac ((real_of_int (vy origin + int j) + 0.5) / vy ratio + vy offset))))
          in if 0 < fst (snd a) then fst a / fst (snd a) else resultData t ! (pIt t + j * nat T + i))"
  using assms
    rows_nth [where xs = "[vx origin .. vx origin + T - 1]" and ys = "[vy origin .. vy origin + T - 1]"
      and i = i and j = j and t = t
      and G = "\<lambda>oPy oPx. pixel_Both filter' ratio sampler radius
                    (Vec2 (snd (floorfrac ((real_of_int oPx + 0.5) / vx ratio + vx offset)))
                          (snd (floorfrac ((real_of_int oPy + 0.5) / vy ratio + vy offset))))
                    (Vec2 (fst (floorfrac ((real_of_int oPx + 0.5) / vx ratio + vx offset)))
                          (fst (floorfrac ((real_of_int oPy + 0.5) / vy ratio + vy offset))))"]
  by (simp add: compute_Both_def Let_def nth_tile_range)

lemma nat_square: "i < nat T \<Longrightarrow> nat (T * T) = nat T * nat T"
  by (simp add: nat_mult_distrib)

lemma tile_index_bound: "i < n \<Longrightarrow> j < n \<Longrightarrow> j * n + i < n * (n::nat)"
proof -
  assume a: "i < n" "j < n"
  then have "j * n + i < Suc j * n" by simp
  also have "\<dots> \<le> n * n" using a(2) by (intro mult_le_mono1) simp
  finally show ?thesis .
qed

lemma computeTile_pixel:
  assumes "i < nat tileSize" "j < nat tileSize"
  shows "resultData (computeTile tileSize passes ratio offset filter' sampler tileOrigin)
           ! (j * nat tileSize + i) =
         (let radius = Vec2 \<lceil>width filter' / (2 * vx ratio)\<rceil> \<lceil>height filter' / (2 * vy ratio)\<rceil>;
              ox = vx tileOrigin + int i;
              oy = vy tileOrigin + int j
          in if passes = Both
               then spec_average (spec_taps_Both filter' ratio offset sampler radius ox oy)
             else if passes = Horizontal
               then spec_average (spec_taps_Horizontal filter' ratio offset sampler radius ox oy)
             else if passes = Vertical
               then spec_average (spec_taps_Vertical filter' ratio offset sampler radius ox oy)
             else 0)"
proof -
  let ?t = "\<lparr> resultData = replicate (nat (tileSize * tileSize)) (0::real), pIt = 0,
              writes = [], samples = [] \<rparr>"
  have sq: "nat (tileSize * tileSize) = nat tileSize * nat tileSize"
    using assms(1) by (rule nat_square)
  have idx: "j * nat tileSize + i < nat tileSize * nat tileSize"
    using assms by (rule tile_index_bound)
  have bound: "pIt ?t + nat tileSize * nat tileSize \<le> length (resultData ?t)"
    by (simp add: sq)
  have zero: "resultData ?t ! (pIt ?t + j * nat tileSize + i) = 0"
    using idx by (simp add: sq)
  show ?thesis
    using compute_Both_nth [OF assms bound, of filter' ratio offset sampler _ tileOrigin]
      compute_Horizontal_nth [OF assms bound, of filter' ratio offset sampler _ tileOrigin]
      compute_Vertical_nth [OF assms bound, of filter' ratio offset sampler _ tileOrigin]
      zero idx
    by (simp add: computeTile_def Let_def sq
        pixel_Both_average [symmetric] pixel_Horizontal_average [symmetric]
        pixel_Vertical_average [symmetric])
qed

lemma requiredPasses_range:
  "requiredPasses node parent filter' = Both \<or> requiredPasses node parent filter' = Horizontal \<or>
   requiredPasses node parent filter' = Vertical"
  by (simp add: requiredPasses_def Both_def Let_def)

text \<open>
  C1. Whenever \<open>computeChannelData\<close> gets a ratio, an offset and a filter, it returns
  a tile, and for every pixel \<open>(i, j)\<close> of the tile, stored at offset
  \<open>j * tileSize + i\<close>, the value is the weighted average of the spec over the taps of
  non-zero weight of the strategy that \<open>requiredPasses\<close> selects (combined,
  horizontal-only or vertical-only): the sum of weight times sample divided by the sum
  of the weights when that sum is strictly positive, and zero otherwise.
\<close>

theorem computeChannelData_weighted_average:
  assumes "ratioAndOffset (dataWindowPlug node) (inPlug_dataWindowPlug node) = Inr (ratio, offset)"
    and "createFilter oiio (filterPlug node) (filterWidthPlug node) ratio = Inr filter'"
    and "i < nat tileSize" and "j < nat tileSize"
  shows "\<exists>t. computeChannelData oiio newSampler tileSize node channelName tileOrigin parent = Inr t \<and>
           resultData t ! (j * nat tileSize + i) =
             (let passes = requiredPasses node parent filter';
                  sampler = newSampler (if passes = Vertical then horizontalPassPlug else inPlug)
                              channelName
                              (inputRegion tileSize tileOrigin passes ratio offset filter')
                              (boundingModePlug node);
                  radius = Vec2 \<lceil>width filter' / (2 * vx ratio)\<rceil> \<lceil>height filter' / (2 * vy ratio)\<rceil>;
                  ox = vx tileOrigin + int i;
                  oy = vy tileOrigin + int j
              in if passes = Both
                   then spec_average (spec_taps_Both filter' ratio offset sampler radius ox oy)
                 else if passes = Horizontal
                   then spec_average (spec_taps_Horizontal filter' ratio offset sampler radius ox oy)
                 else spec_average (spec_taps_Vertical filter' ratio offset sampler radius ox oy))"
  using assms(1,2) computeTile_pixel [OF assms(3,4)] requiredPasses_range [of node parent filter']
  by (auto simp add: computeChannelData_def Let_def)

lemma node1_ratioAndOffset:
  "ratioAndOffset (dataWindowPlug node1) (inPlug_dataWindowPlug node1) = Inr (Vec2 1 1, Vec2 0 0)"
  by (simp add: ratioAndOffset_def node1_def node0_def size_Box2f_def size_Box2i_def int32_def
      V2i_of_V2f_def float_to_int_def isEmpty_def V2f_def Let_def)

lemma node1_createFilter:
  "createFilter oiio0 (filterPlug node1) (filterWidthPlug node1) (Vec2 1 1) = Inr (box_filter ''box'' 2 2)"
  by (simp add: createFilter_def filterName_def c_str_def oiio0_def node1_def node0_def)

lemma upto_radius1: "[- 1 .. 1] = [- 1, 0, 1 :: int]"
  by (simp add: upto.simps)

lemma node1_Horizontal_value:
  "spec_average (spec_taps_Horizontal (box_filter ''box'' 2 2) (Vec2 1 1) (Vec2 0 0)
     (newSampler0 p c b m) (Vec2 1 1) 1 0) = 5 / 3"
  by (simp add: spec_average_def spec_taps_Horizontal_def box_filter_def newSampler0_def Let_def
      upto_radius1)

lemma node1_Both_value:
  "spec_average (spec_taps_Both (box_filter ''box'' 2 2) (Vec2 1 1) (Vec2 0 0)
     (newSampler0 p c b m) (Vec2 1 1) 1 0) = 5 / 3"
  by (simp add: spec_average_def spec_taps_Both_def box_filter_def newSampler0_def Let_def
      upto_radius1)

lemma node1_Vertical_value:
  "spec_average (spec_taps_Vertical (box_filter ''box'' 2 2) (Vec2 1 1) (Vec2 0 0)
     (newSampler0 p c b m) (Vec2 1 1) 1 0) = 1"
  by (simp add: spec_average_def spec_taps_Vertical_def box_filter_def newSampler0_def Let_def
      upto_radius1)

theorem computeChannelData_weighted_average_witness:
  "ratioAndOffset (dataWindowPlug node1) (inPlug_dataWindowPlug node1) = Inr (Vec2 1 1, Vec2 0 0) \<and>
   createFilter oiio0 (filterPlug node1) (filterWidthPlug node1) (Vec2 1 1)
     = Inr (box_filter ''box'' 2 2) \<and>
   (1::nat) < nat 2 \<and> (0::nat) < nat 2 \<and>
   (\<exists>t. computeChannelData oiio0 newSampler0 2 node1 ''R'' (Vec2 0 0) horizontalPassPlug = Inr t \<and>
        resultData t ! 1 = 5 / 3) \<and>
   (\<exists>t. computeChannelData oiio0 newSampler0 2 node1 ''R'' (Vec2 0 0) outPlug = Inr t \<and>
        resultData t ! 1 = 1) \<and>
   (\<exists>t. computeChannelData oiio0 newSampler0 2 (node1\<lparr>debugPlug := SinglePass\<rparr>) ''R'' (Vec2 0 0)
          outPlug = Inr t \<and>
        resultData t ! 1 = 5 / 3)"
proof -
  have i: "(1::nat) < nat 2" and j: "(0::nat) < nat 2" by simp_all
  have r: "ratioAndOffset (dataWindowPlug node1) (inPlug_dataWindowPlug node1)
             = Inr (Vec2 1 1, Vec2 0 0)"
    by (rule node1_ratioAndOffset)
  have f: "createFilter oiio0 (filterPlug node1) (filterWidthPlug node1) (Vec2 1 1)
             = Inr (box_filter ''box'' 2 2)"
    by (rule node1_createFilter)
  have r': "ratioAndOffset (dataWindowPlug (node1\<lparr>debugPlug := SinglePass\<rparr>))
              (inPlug_dataWindowPlug (node1\<lparr>debugPlug := SinglePass\<rparr>)) = Inr (Vec2 1 1, Vec2 0 0)"
    using r by simp
  have f': "createFilter oiio0 (filterPlug (node1\<lparr>debugPlug := SinglePass\<rparr>))
              (filterWidthPlug (node1\<lparr>debugPlug := SinglePass\<rparr>)) (Vec2 1 1)
              = Inr (box_filter ''box'' 2 2)"
    using f by simp
  have pH: "requiredPasses node1 horizontalPassPlug (box_filter ''box'' 2 2) = Horizontal"
    by (simp add: requiredPasses_def node1_def node0_def Off_def HorizontalPass_def SinglePass_def)
  have pV: "requiredPasses node1 outPlug (box_filter ''box'' 2 2) = Vertical"
    by (simp add: requiredPasses_def node1_def node0_def Off_def HorizontalPass_def SinglePass_def
        box_filter_def)
  have pB: "requiredPasses (node1\<lparr>debugPlug := SinglePass\<rparr>) outPlug (box_filter ''box'' 2 2) = Both"
    by (simp add: requiredPasses_def HorizontalPass_def SinglePass_def Both_def)
  have ne: "Horizontal \<noteq> Both" "Vertical \<noteq> Both" "Vertical \<noteq> Horizontal"
    "Both \<noteq> Vertical" "Horizontal \<noteq> Vertical"
    by (simp_all add: Horizontal_def Vertical_def Both_def)
  have radius: "\<lceil>width (box_filter ''box'' 2 2) / 2\<rceil> = 1"
    "\<lceil>height (box_filter ''box'' 2 2) / 2\<rceil> = 1"
    by (simp_all add: box_filter_def)
  have H: "\<exists>t. computeChannelData oiio0 newSampler0 2 node1 ''R'' (Vec2 0 0) horizontalPassPlug = Inr t \<and>
             resultData t ! 1 = 5 / 3"
    using computeChannelData_weighted_average [OF r f i j, of newSampler0 "''R''" "Vec2 0 0" horizontalPassPlug]
    by (simp add: pH ne radius Let_def node1_Horizontal_value)
  have V: "\<exists>t. computeChannelData oiio0 newSampler0 2 node1 ''R'' (Vec2 0 0) outPlug = Inr t \<and>
             resultData t ! 1 = 1"
    using computeChannelData_weighted_average [OF r f i j, of newSampler0 "''R''" "Vec2 0 0" outPlug]
    by (simp add: pV ne radius Let_def node1_Vertical_value)
  have B: "\<exists>t. computeChannelData oiio0 newSampler0 2 (node1\<lparr>debugPlug := SinglePass\<rparr>) ''R''
                 (Vec2 0 0) outPlug = Inr t \<and>
             resultData t ! 1 = 5 / 3"
    using computeChannelData_weighted_average [OF r' f' i j, of newSampler0 "''R''" "Vec2 0 0" outPlug]
    by (simp add: pB ne radius Let_def node1_Both_value)
  show ?thesis
    using i j r f H V B by blast
qed

section \<open>The result buffer\<close>

lemma passes_distinct:
  "Horizontal \<noteq> Both" "Vertical \<noteq> Both" "Vertical \<noteq> Horizontal"
  "Both \<noteq> Horizontal" "Both \<noteq> Vertical" "Horizontal \<noteq> Vertical"
  by (simp_all add: Horizontal_def Vertical_def Both_def)

lemma computeTile_rows:
  assumes "passes = Both \<or> passes = Horizontal \<or> passes = Vertical"
  shows "computeTile tileSize passes ratio offset filter' sampler tileOrigin =
           fold (\<lambda>oPy. fold (\<lambda>oPx. store (tile_pixel passes filter' ratio offset sampler
                    (Vec2 \<lceil>width filter' / (2 * vx ratio)\<rceil> \<lceil>height filter' / (2 * vy ratio)\<rceil>) oPx oPy))
                  [vx tileOrigin .. vx tileOrigin + tileSize - 1])
             [vy tileOrigin .. vy tileOrigin + tileSize - 1]
             \<lparr> resultData = replicate (nat (tileSize * tileSize)) 0, pIt = 0,
               writes = [], samples = [] \<rparr>"
  using assms
  by (auto simp add: computeTile_def compute_Both_def compute_Horizontal_def compute_Vertical_def
      tile_pixel_def Let_def passes_distinct)

lemma computeTile_other:
  assumes "passes \<noteq> Both" "passes \<noteq> Horizontal" "passes \<noteq> Vertical"
  shows "computeTile tileSize passes ratio offset filter' sampler tileOrigin =
           \<lparr> resultData = replicate (nat (tileSize * tileSize)) 0, pIt = 0,
             writes = [], samples = [] \<rparr>"
  using assms by (simp add: computeTile_def Let_def)

lemma tile_pixel_weight:
  "fst (snd (tile_pixel passes filter' ratio offset sampler radius ox oy)) =
     spec_weight (spec_taps passes filter' ratio offset sampler radius ox oy)"
  by (simp add: tile_pixel_def spec_taps_def spec_weight_def Let_def floorfrac_def
      pixel_Both_eq pixel_Horizontal_eq pixel_Vertical_eq
      spec_taps_Both_def spec_taps_Horizontal_def spec_taps_Vertical_def)

lemma store_writes_ok: "writes_ok t \<Longrightarrow> writes_ok (store a t)"
  by (cases a) (auto simp add: writes_ok_def Let_def sorted_wrt_append)

lemma row_writes_ok: "writes_ok t \<Longrightarrow> writes_ok (fold (\<lambda>x. store (g x)) xs t)"
  by (induction xs arbitrary: t) (simp_all add: store_writes_ok)

lemma rows_writes_ok:
  "writes_ok t \<Longrightarrow> writes_ok (fold (\<lambda>y. fold (\<lambda>x. store (G y x)) xs) ys t)"
  by (induction ys arbitrary: t) (simp_all add: row_writes_ok)

lemma row_writes_length:
  "length (writes (fold (\<lambda>x. store (g x)) xs t)) \<le> length (writes t) + length xs"
proof (induction xs arbitrary: t)
  case Nil
  then show ?case by simp
next
  case (Cons x xs)
  have "length (writes (store (g x) t)) \<le> length (writes t) + 1"
    by (simp add: store_writes)
  with Cons [of "store (g x) t"] show ?case by simp
qed

lemma rows_writes_length:
  "length (writes (fold (\<lambda>y. fold (\<lambda>x. store (G y x)) xs) ys t))
     \<le> length (writes t) + length ys * length xs"
proof (induction ys arbitrary: t)
  case Nil
  then show ?case by simp
next
  case (Cons y ys)
  have "length (writes (fold (\<lambda>x. store (G y x)) xs t)) \<le> length (writes t) + length xs"
    by (rule row_writes_length)
  with Cons [of "fold (\<lambda>x. store (G y x)) xs t"] show ?case by simp
qed

lemma row_unwritten:
  "n < length (resultData t) \<Longrightarrow> n \<notin> set (writes (fold (\<lambda>x. store (g x)) xs t)) \<Longrightarrow>
   resultData (fold (\<lambda>x. store (g x)) xs t) ! n = resultData t ! n"
proof (induction xs arbitrary: t rule: rev_induct)
  case Nil
  then show ?case by simp
next
  case (snoc x xs)
  then show ?case
    by (auto simp add: store_nth store_writes row_length split: if_splits)
qed

lemma rows_unwritten:
  "n < length (resultData t) \<Longrightarrow>
   n \<notin> set (writes (fold (\<lambda>y. fold (\<lambda>x. store (G y x)) xs) ys t)) \<Longrightarrow>
   resultData (fold (\<lambda>y. fold (\<lambda>x. store (G y x)) xs) ys t) ! n = resultData t ! n"
proof (induction ys arbitrary: t rule: rev_induct)
  case Nil
  then show ?case by simp
next
  case (snoc y ys)
  let ?t1 = "fold (\<lambda>y. fold (\<lambda>x. store (G y x)) xs) ys t"
  have fin: "fold (\<lambda>y. fold (\<lambda>x. store (G y x)) xs) (ys @ [y]) t = fold (\<lambda>x. store (G y x)) xs ?t1"
    by simp
  have n1: "n < length (resultData ?t1)" using snoc.prems(1) by (simp add: rows_length)
  have nw: "n \<notin> set (writes (fold (\<lambda>x. store (G y x)) xs ?t1))"
    using snoc.prems(2) by simp
  then have nw1: "n \<notin> set (writes ?t1)"
    by (simp add: row_writes)
  have "resultData (fold (\<lambda>x. store (G y x)) xs ?t1) ! n = resultData ?t1 ! n"
    using n1 nw by (rule row_unwritten)
  also have "\<dots> = resultData t ! n"
    using snoc.prems(1) nw1 by (rule snoc.IH)
  finally show ?case by simp
qed

lemma computeTile_writes:
  assumes "passes = Both \<or> passes = Horizontal \<or> passes = Vertical"
  shows "writes (computeTile tileSize passes ratio offset filter' sampler tileOrigin) =
           concat (map (\<lambda>j. map (\<lambda>i. j * nat tileSize + i)
                     (filter (\<lambda>i. 0 < spec_weight (spec_taps passes filter' ratio offset sampler
                          (Vec2 \<lceil>width filter' / (2 * vx ratio)\<rceil> \<lceil>height filter' / (2 * vy ratio)\<rceil>)
                          (vx tileOrigin + int i) (vy tileOrigin + int j)))
                        [0..<nat tileSize]))
                  [0..<nat tileSize])"
proof -
  let ?xs = "[vx tileOrigin .. vx tileOrigin + tileSize - 1]"
  let ?ys = "[vy tileOrigin .. vy tileOrigin + tileSize - 1]"
  let ?r = "Vec2 \<lceil>width filter' / (2 * vx ratio)\<rceil> \<lceil>height filter' / (2 * vy ratio)\<rceil>"
  let ?G = "\<lambda>oPy oPx. tile_pixel passes filter' ratio offset sampler ?r oPx oPy"
  have inner: "filter (\<lambda>k. 0 < fst (snd (?G y (?xs ! k)))) [0..<nat tileSize]
        = filter (\<lambda>i. 0 < spec_weight (spec_taps passes filter' ratio offset sampler ?r
                          (vx tileOrigin + int i) y)) [0..<nat tileSize]" for y
    by (rule filter_cong [OF refl]) (simp add: nth_tile_range tile_pixel_weight)
  have "writes (computeTile tileSize passes ratio offset filter' sampler tileOrigin) =
          concat (map (\<lambda>j. map (\<lambda>k. j * nat tileSize + k)
                    (filter (\<lambda>k. 0 < fst (snd (?G (?ys ! j) (?xs ! k)))) [0..<nat tileSize]))
                 [0..<nat tileSize])"
    by (simp add: computeTile_rows [OF assms] rows_writes [where G = ?G])
  also have "\<dots> = concat (map (\<lambda>j. map (\<lambda>i. j * nat tileSize + i)
                     (filter (\<lambda>i. 0 < spec_weight (spec_taps passes filter' ratio offset sampler ?r
                          (vx tileOrigin + int i) (vy tileOrigin + int j)))
                        [0..<nat tileSize]))
                  [0..<nat tileSize])"
    by (rule arg_cong [where f = concat], rule map_cong [OF refl])
      (simp add: inner nth_tile_range)
  finally show ?thesis .
qed

lemma writes_ok_init:
  "writes_ok \<lparr> resultData = d, pIt = 0, writes = [], samples = [] \<rparr>"
  by (simp add: writes_ok_def)

lemma computeTile_length:
  "length (resultData (computeTile tileSize passes ratio offset filter' sampler tileOrigin))
     = nat (tileSize * tileSize)"
proof (cases "passes = Both \<or> passes = Horizontal \<or> passes = Vertical")
  case True
  then show ?thesis by (simp add: computeTile_rows rows_length)
next
  case False
  then show ?thesis by (simp add: computeTile_other)
qed

lemma computeTile_pIt:
  assumes "passes = Both \<or> passes = Horizontal \<or> passes = Vertical"
  shows "pIt (computeTile tileSize passes ratio offset filter' sampler tileOrigin)
           = nat tileSize * nat tileSize"
  by (simp add: computeTile_rows [OF assms] rows_pIt)

lemma computeTile_writes_ok:
  "writes_ok (computeTile tileSize passes ratio offset filter' sampler tileOrigin)"
proof (cases "passes = Both \<or> passes = Horizontal \<or> passes = Vertical")
  case True
  then show ?thesis
    by (simp only: computeTile_rows [OF True]) (intro rows_writes_ok writes_ok_init)
next
  case False
  then show ?thesis by (simp add: computeTile_other writes_ok_init)
qed

lemma computeTile_writes_length:
  "length (writes (computeTile tileSize passes ratio offset filter' sampler tileOrigin))
     \<le> nat tileSize * nat tileSize"
proof (cases "passes = Both \<or> passes = Horizontal \<or> passes = Vertical")
  case True
  let ?r = "Vec2 \<lceil>width filter' / (2 * vx ratio)\<rceil> \<lceil>height filter' / (2 * vy ratio)\<rceil>"
  show ?thesis
    using rows_writes_length [where G = "\<lambda>oPy oPx. tile_pixel passes filter' ratio offset sampler ?r oPx oPy"
        and xs = "[vx tileOrigin .. vx tileOrigin + tileSize - 1]"
        and ys = "[vy tileOrigin .. vy tileOrigin + tileSize - 1]"
        and t = "\<lparr> resultData = replicate (nat (tileSize * tileSize)) 0, pIt = 0,
               writes = [], samples = [] \<rparr>"]
    by (simp add: computeTile_rows [OF True])
next
  case False
  then show ?thesis by (simp add: computeTile_other)
qed

lemma computeTile_unwritten:
  assumes "k < nat (tileSize * tileSize)"
    and "k \<notin> set (writes (computeTile tileSize passes ratio offset filter' sampler tileOrigin))"
  shows "resultData (computeTile tileSize passes ratio offset filter' sampler tileOrigin) ! k = 0"
proof (cases "passes = Both \<or> passes = Horizontal \<or> passes = Vertical")
  case True
  let ?r = "Vec2 \<lceil>width filter' / (2 * vx ratio)\<rceil> \<lceil>height filter' / (2 * vy ratio)\<rceil>"
  let ?t = "\<lparr> resultData = replicate (nat (tileSize * tileSize)) (0::real), pIt = 0,
               writes = [], samples = [] \<rparr>"
  have "resultData (computeTile tileSize passes ratio offset filter' sampler tileOrigin) ! k
          = resultData ?t ! k"
    using assms
    by (simp only: computeTile_rows [OF True]) (rule rows_unwritten, simp_all)
  then show ?thesis using assms(1) by simp
next
  case False
  then show ?thesis using assms(1) by (simp add: computeTile_other)
qed

text \<open>
  C10 (amended). For a tile size that is not negative, the result of \<open>computeTile\<close>
  has exactly \<open>tileSize * tileSize\<close> entries. When \<open>passes\<close> is Both, Horizontal or
  Vertical the iterator is advanced exactly \<open>tileSize * tileSize\<close> times, once per pixel
  in row-major order, and a value is stored at the iterator's offset \<open>j * tileSize + i\<close>
  exactly for the pixels \<open>(i, j)\<close> whose weight sum is strictly positive. So the offsets
  written are strictly increasing, all lie inside the buffer, and there are at most
  \<open>tileSize * tileSize\<close> of them; every entry that is not written is zero. For any other
  value of \<open>passes\<close> nothing is written and the buffer is all zero.
\<close>

theorem computeTile_buffer:
  assumes "0 \<le> tileSize"
  shows "let t = computeTile tileSize passes ratio offset filter' sampler tileOrigin;
             n = nat (tileSize * tileSize);
             radius = Vec2 \<lceil>width filter' / (2 * vx ratio)\<rceil> \<lceil>height filter' / (2 * vy ratio)\<rceil>
         in length (resultData t) = n \<and>
            (passes = Both \<or> passes = Horizontal \<or> passes = Vertical \<longrightarrow>
               pIt t = n \<and>
               writes t =
                 concat (map (\<lambda>j. map (\<lambda>i. j * nat tileSize + i)
                     (filter (\<lambda>i. 0 < spec_weight (spec_taps passes filter' ratio offset sampler radius
                                       (vx tileOrigin + int i) (vy tileOrigin + int j)))
                        [0..<nat tileSize]))
                  [0..<nat tileSize])) \<and>
            sorted_wrt (<) (writes t) \<and>
            (\<forall>k\<in>set (writes t). k < n) \<and>
            length (writes t) \<le> n \<and>
            (\<forall>k<n. k \<notin> set (writes t) \<longrightarrow> resultData t ! k = 0) \<and>
            (passes \<noteq> Both \<and> passes \<noteq> Horizontal \<and> passes \<noteq> Vertical \<longrightarrow>
               resultData t = replicate n 0 \<and> writes t = [] \<and> pIt t = 0)"
proof -
  let ?t = "computeTile tileSize passes ratio offset filter' sampler tileOrigin"
  have sq: "nat (tileSize * tileSize) = nat tileSize * nat tileSize"
    using assms by (simp add: nat_mult_distrib)
  have ok: "writes_ok ?t" by (rule computeTile_writes_ok)
  have p: "pIt ?t \<le> nat tileSize * nat tileSize"
  proof (cases "passes = Both \<or> passes = Horizontal \<or> passes = Vertical")
    case True
    then show ?thesis by (simp add: computeTile_pIt)
  next
    case False
    then show ?thesis by (simp add: computeTile_other)
  qed
  have bound: "\<forall>k\<in>set (writes ?t). k < nat (tileSize * tileSize)"
    using ok p by (auto simp add: writes_ok_def sq)
  have sorted: "sorted_wrt (<) (writes ?t)"
    using ok by (simp add: writes_ok_def)
  show ?thesis
    unfolding Let_def
    using computeTile_length [of tileSize passes ratio offset filter' sampler tileOrigin]
      computeTile_pIt [of passes tileSize ratio offset filter' sampler tileOrigin]
      computeTile_writes [of passes tileSize ratio offset filter' sampler tileOrigin]
      computeTile_writes_length [of tileSize passes ratio offset filter' sampler tileOrigin]
      computeTile_unwritten [of _ tileSize passes ratio offset filter' sampler tileOrigin]
      computeTile_other [of passes tileSize ratio offset filter' sampler tileOrigin]
      bound sorted
    by (simp add: sq)
qed

lemma node2_ratioAndOffset:
  "ratioAndOffset (dataWindowPlug node2) (inPlug_dataWindowPlug node2)
     = Inr (Vec2 2 2, Vec2 0 0)"
  by (simp add: ratioAndOffset_def node2_def size_Box2f_def size_Box2i_def int32_def
      V2i_of_V2f_def float_to_int_def isEmpty_def V2f_def Let_def)

lemma node2_createFilter:
  "createFilter oiio0 (filterPlug node2) (filterWidthPlug node2) (Vec2 2 2)
     = Inr (box_filter ''box'' (1 / 2) (1 / 2))"
  by (simp add: createFilter_def filterName_def c_str_def oiio0_def node2_def)

lemma node2_requiredPasses:
  "requiredPasses node2 horizontalPassPlug f = Horizontal"
  by (simp add: requiredPasses_def node2_def Off_def HorizontalPass_def SinglePass_def)

lemma node2_computeChannelData:
  "computeChannelData oiio0 newSampler0 T node2 ''R'' (Vec2 0 0) horizontalPassPlug =
     Inr (computeTile T Horizontal (Vec2 2 2) (Vec2 0 0)
            (box_filter ''box'' (1 / 2) (1 / 2))
            (newSampler0 inPlug ''R''
               (inputRegion T (Vec2 0 0) Horizontal (Vec2 2 2) (Vec2 0 0)
                  (box_filter ''box'' (1 / 2) (1 / 2))) 0)
            (Vec2 0 0))"
  by (simp add: computeChannelData_def node2_ratioAndOffset node2_createFilter
      node2_requiredPasses passes_distinct Let_def)
    (simp add: node2_def)

text \<open>
  When the image is doubled and the offset is zero, the centre of the output pixel
  \<open>ox\<close> maps to the source coordinate \<open>(ox + 1 / 2) / 2\<close>: its floor is \<open>ox div 2\<close>
  and its fractional part is a quarter or three quarters.
\<close>

lemma doubled_floor: "\<lfloor>(real_of_int ox + 1 / 2) / 2\<rfloor> = ox div 2"
proof (cases "even ox")
  case True
  then obtain k where k: "ox = 2 * k" by (elim evenE)
  have "\<lfloor>(real_of_int ox + 1 / 2) / 2\<rfloor> = k"
    unfolding k by (rule floor_unique) simp_all
  moreover have "ox div 2 = k" unfolding k by simp
  ultimately show ?thesis by simp
next
  case False
  then obtain k where k: "ox = 2 * k + 1" by (elim oddE)
  have "\<lfloor>(real_of_int ox + 1 / 2) / 2\<rfloor> = k"
    unfolding k by (rule floor_unique) simp_all
  moreover have "ox div 2 = k" unfolding k by simp
  ultimately show ?thesis by simp
qed

lemma doubled_frac:
  "(real_of_int ox + 1 / 2) / 2 - real_of_int (ox div 2) = (if even ox then 1 / 4 else 3 / 4)"
proof (cases "even ox")
  case True
  then obtain k where k: "ox = 2 * k" by (elim evenE)
  show ?thesis unfolding k by (simp add: field_simps)
next
  case False
  then obtain k where k: "ox = 2 * k + 1" by (elim oddE)
  show ?thesis unfolding k by (simp add: field_simps)
qed

lemma node2_weight:
  "spec_weight (spec_taps Horizontal (box_filter ''box'' (1 / 2) (1 / 2)) (Vec2 2 2)
      (Vec2 0 0) s (Vec2 1 1) ox oy) = 0"
  by (simp add: spec_weight_def spec_taps_def spec_taps_Horizontal_def box_filter_def
      passes_distinct Let_def upto_radius1 doubled_floor doubled_frac)

text \<open>
  C10 as stated fails: the number of writes is not always \<open>tileSize * tileSize\<close>. The
  node \<open>node2\<close> doubles the image (ratio 2, offset 0) with a box filter half an output
  pixel wide, so the filter radius is \<open>ceil (0.5 / 4) = 1\<close> source pixel. The centre of
  every output pixel lies a quarter of a source pixel from the nearest source pixel
  centre, the three taps are evaluated half an output pixel or more from the centre of
  the kernel, outside its support, and every weight is zero. For a tile of 64 by 64
  pixels the horizontal pass stores no value at all.
\<close>

theorem computeChannelData_no_write:
  "computeChannelData oiio0 newSampler0 64 node2 ''R'' (Vec2 0 0) horizontalPassPlug =
     Inr (computeTile 64 Horizontal (Vec2 2 2) (Vec2 0 0)
            (box_filter ''box'' (1 / 2) (1 / 2))
            (newSampler0 inPlug ''R''
               (inputRegion 64 (Vec2 0 0) Horizontal (Vec2 2 2) (Vec2 0 0)
                  (box_filter ''box'' (1 / 2) (1 / 2))) 0)
            (Vec2 0 0)) \<and>
   writes (computeTile 64 Horizontal (Vec2 2 2) (Vec2 0 0)
            (box_filter ''box'' (1 / 2) (1 / 2))
            (newSampler0 inPlug ''R''
               (inputRegion 64 (Vec2 0 0) Horizontal (Vec2 2 2) (Vec2 0 0)
                  (box_filter ''box'' (1 / 2) (1 / 2))) 0)
            (Vec2 0 0)) = [] \<and>
   nat (64 * 64) = 4096"
proof -
  have r: "\<lceil>width (box_filter ''box'' (1 / 2) (1 / 2)) / 4\<rceil> = 1"
    "\<lceil>height (box_filter ''box'' (1 / 2) (1 / 2)) / 4\<rceil> = 1"
    by (rule ceiling_unique; simp add: box_filter_def)+
  show ?thesis
    by (simp add: node2_computeChannelData computeTile_writes r node2_weight)
qed

lemma node1_weight:
  "spec_weight (spec_taps Horizontal (box_filter ''box'' 2 2) (Vec2 1 1) (Vec2 0 0) s
      (Vec2 1 1) ox oy) = 3"
proof -
  have fl: "\<lfloor>real_of_int ox + 1 / 2\<rfloor> = ox" by linarith
  show ?thesis
    by (simp add: spec_weight_def spec_taps_def spec_taps_Horizontal_def box_filter_def
        passes_distinct Let_def upto_radius1 fl)
qed

theorem computeTile_buffer_witness:
  "(0::int) \<le> 2 \<and>
   (let t = computeTile 2 Horizontal (Vec2 1 1) (Vec2 0 0) (box_filter ''box'' 2 2)
              (newSampler0 inPlug ''R'' (Box (Vec2 0 0) (Vec2 0 0)) 0) (Vec2 0 0)
    in length (resultData t) = 4 \<and> pIt t = 4 \<and> writes t = [0, 1, 2, 3]) \<and>
   (let t = computeTile 2 0 (Vec2 1 1) (Vec2 0 0) (box_filter ''box'' 2 2)
              (newSampler0 inPlug ''R'' (Box (Vec2 0 0) (Vec2 0 0)) 0) (Vec2 0 0)
    in resultData t = [0, 0, 0, 0] \<and> pIt t = 0 \<and> writes t = [])"
proof -
  have T: "(0::int) \<le> 2" by simp
  have r: "\<lceil>width (box_filter ''box'' 2 2) / 2\<rceil> = 1" "\<lceil>height (box_filter ''box'' 2 2) / 2\<rceil> = 1"
    by (simp_all add: box_filter_def)
  have z: "(0::32 word) \<noteq> Both" "(0::32 word) \<noteq> Horizontal" "(0::32 word) \<noteq> Vertical"
    by (simp_all add: Both_def Horizontal_def Vertical_def)
  have u: "[0..<2] = [0, Suc 0]" by (simp add: upt_rec)
  have n: "replicate 4 (0::real) = [0, 0, 0, 0]" by (simp add: numeral_eq_Suc)
  have H: "let t = computeTile 2 Horizontal (Vec2 1 1) (Vec2 0 0) (box_filter ''box'' 2 2)
              (newSampler0 inPlug ''R'' (Box (Vec2 0 0) (Vec2 0 0)) 0) (Vec2 0 0)
    in length (resultData t) = 4 \<and> pIt t = 4 \<and> writes t = [0, 1, 2, 3]"
    using computeTile_buffer [OF T, of Horizontal "Vec2 1 1" "Vec2 0 0" "box_filter ''box'' 2 2"
        "newSampler0 inPlug ''R'' (Box (Vec2 0 0) (Vec2 0 0)) 0" "Vec2 0 0"]
    by (simp add: Let_def r node1_weight u)
  have Z: "let t = computeTile 2 0 (Vec2 1 1) (Vec2 0 0) (box_filter ''box'' 2 2)
              (newSampler0 inPlug ''R'' (Box (Vec2 0 0) (Vec2 0 0)) 0) (Vec2 0 0)
    in resultData t = [0, 0, 0, 0] \<and> pIt t = 0 \<and> writes t = []"
    using computeTile_buffer [OF T, of 0 "Vec2 1 1" "Vec2 0 0" "box_filter ''box'' 2 2"
        "newSampler0 inPlug ''R'' (Box (Vec2 0 0) (Vec2 0 0)) 0" "Vec2 0 0"]
    by (simp add: Let_def z n)
  show ?thesis using T H Z by blast
qed

section \<open>Ratio and offset\<close>

text \<open>
  C5 (amended). For every pair of data windows in which a window has zero size on some
  axis (\<open>max - min + 1 = 0\<close>), \<open>ratioAndOffset\<close> raises no error: it returns a ratio
  and an offset. When the window of zero size is the source window, that window is an
  empty box, the size Imath gives it is the zero vector, the source size after the
  \<open>+ 1\<close> is 1 on both axes, and the ratio returned is the destination size.
\<close>

theorem ratioAndOffset_zero_size_no_error:
  assumes "vx (bmax srcDataWindow) - vx (bmin srcDataWindow) + 1 = 0 \<or>
           vy (bmax srcDataWindow) - vy (bmin srcDataWindow) + 1 = 0 \<or>
           vx (bmax dstDataWindow) - vx (bmin dstDataWindow) + 1 = 0 \<or>
           vy (bmax dstDataWindow) - vy (bmin dstDataWindow) + 1 = 0"
  shows "\<exists>ratio offset.
           ratioAndOffset dstDataWindow srcDataWindow = Inr (ratio, offset) \<and>
           (vx (bmax srcDataWindow) - vx (bmin srcDataWindow) + 1 = 0 \<or>
            vy (bmax srcDataWindow) - vy (bmin srcDataWindow) + 1 = 0 \<longrightarrow>
              ratio = Vec2 (vx (size_Box2f dstDataWindow) + 1) (vy (size_Box2f dstDataWindow) + 1))"
proof -
  have e: "isEmpty srcDataWindow"
    if "vx (bmax srcDataWindow) - vx (bmin srcDataWindow) + 1 = 0 \<or>
        vy (bmax srcDataWindow) - vy (bmin srcDataWindow) + 1 = 0"
    using that by (auto simp add: isEmpty_def)
  show ?thesis
    using e by (auto simp add: ratioAndOffset_def size_Box2i_def int32_def V2f_def Let_def)
qed

text \<open>
  C5 as stated fails. The source window below has zero size on the horizontal axis
  (\<open>max - min + 1 = 0\<close>); \<open>ratioAndOffset\<close> raises no error for it and returns the
  ratio \<open>(4, 4)\<close>.
\<close>

theorem ratioAndOffset_zero_size_window:
  "ratioAndOffset (Box (Vec2 0 0) (Vec2 3 3)) zero_size_window = Inr (Vec2 4 4, Vec2 0 0) \<and>
   vx (bmax zero_size_window) - vx (bmin zero_size_window) + 1 = 0"
  by (simp add: ratioAndOffset_def zero_size_window_def size_Box2f_def size_Box2i_def int32_def
      V2i_of_V2f_def float_to_int_def isEmpty_def V2f_def Let_def)

text \<open>
  The theorem at a source window of zero size on the vertical axis, where the quotient
  \<open>- 3 / 8\<close> of the destination minimum by the ratio is truncated to 0, and at a
  destination window of zero size on the vertical axis.
\<close>

theorem ratioAndOffset_zero_size_no_error_witness:
  "vy (bmax (Box (Vec2 2 5) (Vec2 9 4) :: Box2i)) - vy (bmin (Box (Vec2 2 5) (Vec2 9 4) :: Box2i)) + 1 = 0 \<and>
   ratioAndOffset (Box (Vec2 (- 3) 0) (Vec2 4 1)) (Box (Vec2 2 5) (Vec2 9 4))
     = Inr (Vec2 8 2, Vec2 2 5) \<and>
   vy (bmax (Box (Vec2 0 0) (Vec2 3 (- 1)) :: Box2f)) - vy (bmin (Box (Vec2 0 0) (Vec2 3 (- 1)) :: Box2f)) + 1 = 0 \<and>
   ratioAndOffset (Box (Vec2 0 0) (Vec2 3 (- 1))) (Box (Vec2 0 0) (Vec2 1 1))
     = Inr (Vec2 (1 / 2) (1 / 2), Vec2 0 0)"
  using ratioAndOffset_zero_size_no_error [of "Box (Vec2 2 5) (Vec2 9 4)" "Box (Vec2 (- 3) 0) (Vec2 4 1)"]
    ratioAndOffset_zero_size_no_error [of "Box (Vec2 0 0) (Vec2 1 1)" "Box (Vec2 0 0) (Vec2 3 (- 1))"]
  by (simp add: ratioAndOffset_def size_Box2f_def size_Box2i_def int32_def
      V2i_of_V2f_def float_to_int_def isEmpty_def V2f_def Let_def)

section \<open>The input region\<close>

lemma computeTile_samples_mem:
  assumes "passes = Both \<or> passes = Horizontal \<or> passes = Vertical"
    and "vx tileOrigin \<le> oPx" "oPx < vx tileOrigin + tileSize"
    and "vy tileOrigin \<le> oPy" "oPy < vy tileOrigin + tileSize"
    and "c \<in> set (snd (snd (tile_pixel passes filter' ratio offset sampler
            (Vec2 \<lceil>width filter' / (2 * vx ratio)\<rceil> \<lceil>height filter' / (2 * vy ratio)\<rceil>) oPx oPy)))"
  shows "c \<in> set (samples (computeTile tileSize passes ratio offset filter' sampler tileOrigin))"
  using assms(2-)
  by (simp add: computeTile_rows [OF assms(1)] rows_samples) force

lemma node3_ratioAndOffset:
  "ratioAndOffset (dataWindowPlug node3) (inPlug_dataWindowPlug node3)
     = Inr (Vec2 (1 / 2) (1 / 2), Vec2 0 0)"
  by (simp add: ratioAndOffset_def node3_def size_Box2f_def size_Box2i_def int32_def
      V2i_of_V2f_def float_to_int_def isEmpty_def V2f_def Let_def)

lemma node3_createFilter:
  "createFilter oiio0 (filterPlug node3) (filterWidthPlug node3) (Vec2 (1 / 2) (1 / 2))
     = Inr (box_filter ''box'' 4 4)"
  by (simp add: createFilter_def filterName_def c_str_def oiio0_def node3_def)

lemma node3_requiredPasses:
  "requiredPasses node3 horizontalPassPlug f = Horizontal"
  by (simp add: requiredPasses_def node3_def Off_def HorizontalPass_def SinglePass_def)

lemma node3_inputRegion:
  "inputRegion 64 (Vec2 64 0) Horizontal (Vec2 (1 / 2) (1 / 2)) (Vec2 0 0) (box_filter ''box'' 4 4)
     = Box (Vec2 126 0) (Vec2 258 64)"
  by (simp add: inputRegion_def box2fToBox2i_def V2f_def box_filter_def Horizontal_def Vertical_def
      Let_def)

lemma upto_radius4: "[- 4 .. 4] = [- 4, - 3, - 2, - 1, 0, 1, 2, 3, 4 :: int]"
  by (simp add: upto.simps)

lemma node3_pixel_samples:
  "(125, 0) \<in> set (snd (snd (tile_pixel Horizontal (box_filter ''box'' 4 4) (Vec2 (1 / 2) (1 / 2))
       (Vec2 0 0) s (Vec2 4 4) 64 0)))"
  by (simp add: tile_pixel_def passes_distinct Let_def floorfrac_def pixel_Horizontal_eq
      upto_radius4 box_filter_def)

text \<open>
  C3, evaluated at a failing input. The node \<open>node3\<close> has ratio 1/2 on both axes and
  a filter of width 4. For the tile at origin \<open>(64, 0)\<close> of the horizontal pass the
  sampler is constructed with the region \<open>[126, 258] x [0, 64]\<close> returned by
  \<open>inputRegion\<close>, which expands the tile by \<open>width / 2 = 2\<close> source pixels; the filter
  loop of \<open>computeChannelData\<close> runs over a radius of \<open>width / (2 * ratio) = 4\<close> source
  pixels, and for the output pixel \<open>(64, 0)\<close> it hands the coordinate \<open>(125, 0)\<close>, with
  weight 1, to the sampler. That coordinate is outside the region.
\<close>

theorem inputRegion_misses_sample:
  "computeChannelData oiio0 newSampler0 64 node3 ''R'' (Vec2 64 0) horizontalPassPlug =
     Inr (computeTile 64 Horizontal (Vec2 (1 / 2) (1 / 2)) (Vec2 0 0) (box_filter ''box'' 4 4)
            (newSampler0 inPlug ''R'' (Box (Vec2 126 0) (Vec2 258 64)) 0) (Vec2 64 0)) \<and>
   inputRegion 64 (Vec2 64 0) Horizontal (Vec2 (1 / 2) (1 / 2)) (Vec2 0 0) (box_filter ''box'' 4 4)
     = Box (Vec2 126 0) (Vec2 258 64) \<and>
   (125, 0) \<in> set (samples
     (computeTile 64 Horizontal (Vec2 (1 / 2) (1 / 2)) (Vec2 0 0) (box_filter ''box'' 4 4)
        (newSampler0 inPlug ''R'' (Box (Vec2 126 0) (Vec2 258 64)) 0) (Vec2 64 0)))"
proof -
  have r: "\<lceil>width (box_filter ''box'' 4 4)\<rceil> = 4" "\<lceil>height (box_filter ''box'' 4 4)\<rceil> = 4"
    by (simp_all add: box_filter_def)
  have c: "computeChannelData oiio0 newSampler0 64 node3 ''R'' (Vec2 64 0) horizontalPassPlug =
     Inr (computeTile 64 Horizontal (Vec2 (1 / 2) (1 / 2)) (Vec2 0 0) (box_filter ''box'' 4 4)
            (newSampler0 inPlug ''R'' (Box (Vec2 126 0) (Vec2 258 64)) 0) (Vec2 64 0))"
    by (simp add: computeChannelData_def node3_ratioAndOffset node3_createFilter
        node3_requiredPasses passes_distinct node3_inputRegion Let_def)
      (simp add: node3_def)
  have m: "(125, 0) \<in> set (samples
     (computeTile 64 Horizontal (Vec2 (1 / 2) (1 / 2)) (Vec2 0 0) (box_filter ''box'' 4 4)
        (newSampler0 inPlug ''R'' (Box (Vec2 126 0) (Vec2 258 64)) 0) (Vec2 64 0)))"
    by (rule computeTile_samples_mem [where oPx = 64 and oPy = 0])
      (simp_all add: r node3_pixel_samples)
  show ?thesis using c m node3_inputRegion by simp
qed

section \<open>The hash of a tile\<close>

lemma hashChannelData_eq:
  assumes "ratioAndOffset (dataWindowPlug node) (inPlug_dataWindowPlug node) = Inr (ratio, offset)"
    and "createFilter oiio (filterPlug node) (filterWidthPlug node) ratio = Inr filter'"
  shows "hashChannelData base oiio newSampler tileSize node parent context h =
           Inr (let passes = requiredPasses node parent filter';
                    sampler = newSampler (if passes = Vertical then horizontalPassPlug else inPlug)
                                (ctx_channelName context)
                                (inputRegion tileSize (ctx_tileOrigin context) passes ratio offset filter')
                                (boundingModePlug node)
                in base parent context h @ [String (name filter')]
                   @ (if passes AND Horizontal \<noteq> 0
                      then [Float (width filter'), Float (vx ratio), Float (vx offset)] else [])
                   @ (if passes AND Vertical \<noteq> 0
                      then [Float (height filter'), Float (vy ratio), Float (vy offset)] else [])
                   @ hash sampler
                   @ [V2i (ctx_tileOrigin context)])"
  using assms by (simp add: hashChannelData_def Let_def h_append_def)

lemma append_eq_same_suffix_length:
  "length s = length s' \<Longrightarrow> p @ s = p' @ s' \<Longrightarrow> p = p'"
  by simp

text \<open>
  C4 (amended). When the ratio, the offset and the filter are computed, the hash of a
  tile request is the hash of the base class followed, in this order, by the filter's
  name, then for each axis whose pass is active the kernel's support size, the ratio
  and the offset on that axis, then the values the sampler appends for the computed
  input region, then the tile origin; no value is appended for the destination data
  window. Two requests that agree on these values have the same hash. Changing any one
  of them changes the hash: two requests with equal hashes have the same tile origin;
  if their base hashes are equal, they have the same filter name and, when they run the
  same passes, the same support size, ratio and offset on every active axis and the
  same sampler hash; and if they run the same passes and their sampler hashes are
  equal, their base hashes are equal. The hash is the sequence of the values appended.
\<close>

theorem hashChannelData_order:
  assumes r: "ratioAndOffset (dataWindowPlug node) (inPlug_dataWindowPlug node) = Inr (ratio, offset)"
    and f: "createFilter oiio (filterPlug node) (filterWidthPlug node) ratio = Inr filter'"
    and r': "ratioAndOffset (dataWindowPlug node') (inPlug_dataWindowPlug node') = Inr (ratio', offset')"
    and f': "createFilter oiio (filterPlug node') (filterWidthPlug node') ratio' = Inr filter''"
  shows "let passes = requiredPasses node parent filter';
             passes' = requiredPasses node' parent' filter'';
             sampler = newSampler (if passes = Vertical then horizontalPassPlug else inPlug)
                         (ctx_channelName context)
                         (inputRegion tileSize (ctx_tileOrigin context) passes ratio offset filter')
                         (boundingModePlug node);
             sampler' = newSampler (if passes' = Vertical then horizontalPassPlug else inPlug)
                          (ctx_channelName context')
                          (inputRegion tileSize (ctx_tileOrigin context') passes' ratio' offset' filter'')
                          (boundingModePlug node');
             H = hashChannelData base oiio newSampler tileSize node parent context h;
             H' = hashChannelData base oiio newSampler tileSize node' parent' context' h'
         in H = Inr (base parent context h @ [String (name filter')]
                     @ (if passes AND Horizontal \<noteq> 0
                        then [Float (width filter'), Float (vx ratio), Float (vx offset)] else [])
                     @ (if passes AND Vertical \<noteq> 0
                        then [Float (height filter'), Float (vy ratio), Float (vy offset)] else [])
                     @ hash sampler
                     @ [V2i (ctx_tileOrigin context)]) \<and>
            (base parent context h = base parent' context' h' \<and> name filter' = name filter'' \<and>
             passes = passes' \<and>
             (passes AND Horizontal \<noteq> 0 \<longrightarrow>
                width filter' = width filter'' \<and> vx ratio = vx ratio' \<and> vx offset = vx offset') \<and>
             (passes AND Vertical \<noteq> 0 \<longrightarrow>
                height filter' = height filter'' \<and> vy ratio = vy ratio' \<and> vy offset = vy offset') \<and>
             hash sampler = hash sampler' \<and> ctx_tileOrigin context = ctx_tileOrigin context'
               \<longrightarrow> H = H') \<and>
            (H = H' \<longrightarrow> ctx_tileOrigin context = ctx_tileOrigin context') \<and>
            (H = H' \<and> base parent context h = base parent' context' h' \<longrightarrow>
               name filter' = name filter'' \<and>
               (passes = passes' \<longrightarrow>
                  (passes AND Horizontal \<noteq> 0 \<longrightarrow>
                     width filter' = width filter'' \<and> vx ratio = vx ratio' \<and> vx offset = vx offset') \<and>
                  (passes AND Vertical \<noteq> 0 \<longrightarrow>
                     height filter' = height filter'' \<and> vy ratio = vy ratio' \<and> vy offset = vy offset') \<and>
                  hash sampler = hash sampler')) \<and>
            (H = H' \<and> passes = passes' \<and> hash sampler = hash sampler' \<longrightarrow>
               base parent context h = base parent' context' h')"
proof -
  note e = hashChannelData_eq [OF r f]
  note e' = hashChannelData_eq [OF r' f']
  show ?thesis
    unfolding Let_def
    apply (intro conjI)
        apply (simp add: e Let_def)
       apply (auto simp add: e e' Let_def)[1]
      apply (simp add: e e' Let_def)
     apply (auto simp add: e e' Let_def)[1]
    apply (simp only: e e' Let_def sum.inject)
    apply (intro impI)
    apply (elim conjE)
    apply (erule append_eq_same_suffix_length [rotated])
    apply simp
    done
qed

lemma node0_ratioAndOffset:
  "ratioAndOffset (dataWindowPlug node0) (inPlug_dataWindowPlug node0) = Inr (Vec2 1 1, Vec2 0 0)"
  by (simp add: ratioAndOffset_def node0_def size_Box2f_def size_Box2i_def int32_def
      V2i_of_V2f_def float_to_int_def isEmpty_def V2f_def Let_def)

lemma node0_tall_ratioAndOffset:
  "ratioAndOffset (dataWindowPlug node0_tall) (inPlug_dataWindowPlug node0_tall)
     = Inr (Vec2 1 2, Vec2 0 0)"
  by (simp add: ratioAndOffset_def node0_tall_def node0_def size_Box2f_def size_Box2i_def int32_def
      V2i_of_V2f_def float_to_int_def isEmpty_def V2f_def Let_def)

lemma node0_createFilter:
  "createFilter oiio0 (filterPlug node0) (filterWidthPlug node0) (Vec2 1 1)
     = Inr (box_filter ''box'' 1 1)"
  by (simp add: createFilter_def filterName_def c_str_def oiio0_def node0_def)

lemma node0_tall_createFilter:
  "createFilter oiio0 (filterPlug node0_tall) (filterWidthPlug node0_tall) (Vec2 1 2)
     = Inr (box_filter ''box'' 1 2)"
  by (simp add: createFilter_def filterName_def c_str_def oiio0_def node0_tall_def node0_def)

lemma node0_passes:
  "requiredPasses node0 horizontalPassPlug f = Horizontal"
  "requiredPasses node0_tall horizontalPassPlug f = Horizontal"
  by (simp_all add: requiredPasses_def node0_tall_def node0_def Off_def HorizontalPass_def
      SinglePass_def)

lemma Horizontal_bits: "Horizontal \<noteq> 0" "Horizontal AND Vertical = 0"
  by (simp_all add: Horizontal_def Vertical_def)

text \<open>
  C4 as stated fails: the destination data window is not among the values hashed, and
  changing it need not change the hash. The two requests below for the horizontal pass
  differ in the destination data window only and have the same hash, which holds no
  value for the window between the base hash and the filter's name.
\<close>

theorem hashChannelData_ignores_dataWindow:
  "hashChannelData base0 oiio0 newSampler0 64 node0 horizontalPassPlug context0 []
     = Inr [Opaque 7, String ''box'', Float 1, Float 1, Float 0, Opaque 0, V2i (Vec2 0 0)] \<and>
   hashChannelData base0 oiio0 newSampler0 64 node0_tall horizontalPassPlug context0 []
     = Inr [Opaque 7, String ''box'', Float 1, Float 1, Float 0, Opaque 0, V2i (Vec2 0 0)] \<and>
   dataWindowPlug node0 = Box (Vec2 0 0) (Vec2 1 1) \<and>
   dataWindowPlug node0_tall = Box (Vec2 0 0) (Vec2 1 3)"
  by (simp add: hashChannelData_eq [OF node0_ratioAndOffset node0_createFilter]
      hashChannelData_eq [OF node0_tall_ratioAndOffset node0_tall_createFilter]
      node0_passes Horizontal_bits passes_distinct Let_def base0_def h_append_def context0_def
      newSampler0_def box_filter_def)
    (simp add: node0_tall_def node0_def)

theorem hashChannelData_order_witness:
  "ratioAndOffset (dataWindowPlug node0) (inPlug_dataWindowPlug node0) = Inr (Vec2 1 1, Vec2 0 0) \<and>
   createFilter oiio0 (filterPlug node0) (filterWidthPlug node0) (Vec2 1 1)
     = Inr (box_filter ''box'' 1 1) \<and>
   ratioAndOffset (dataWindowPlug node1) (inPlug_dataWindowPlug node1) = Inr (Vec2 1 1, Vec2 0 0) \<and>
   createFilter oiio0 (filterPlug node1) (filterWidthPlug node1) (Vec2 1 1)
     = Inr (box_filter ''box'' 2 2) \<and>
   hashChannelData base0 oiio0 newSampler0 64 node0 outPlug context0 []
     = Inr [Opaque 7, String ''box'', Float 1, Float 1, Float 0, Opaque 2, V2i (Vec2 0 0)] \<and>
   hashChannelData base0 oiio0 newSampler0 64 node0 outPlug context0 []
     \<noteq> hashChannelData base0 oiio0 newSampler0 64 node1 outPlug context0 []"
proof -
  note r = node0_ratioAndOffset and f = node0_createFilter
    and r' = node1_ratioAndOffset and f' = node1_createFilter
  note inst = hashChannelData_order [OF r f r' f', of outPlug outPlug newSampler0 context0 64
      context0 base0 "[]" "[]", unfolded Let_def]
  note c1 = inst [THEN conjunct1]
  note c4 = inst [THEN conjunct2, THEN conjunct2, THEN conjunct2, THEN conjunct1]
  have p: "requiredPasses node0 outPlug (box_filter ''box'' 1 1) = Vertical"
    "requiredPasses node1 outPlug (box_filter ''box'' 2 2) = Vertical"
    by (simp_all add: requiredPasses_def node1_def node0_def Off_def HorizontalPass_def
        SinglePass_def box_filter_def)
  have b: "Vertical AND Horizontal = 0" "Vertical \<noteq> 0"
    by (simp_all add: Horizontal_def Vertical_def)
  have v: "hashChannelData base0 oiio0 newSampler0 64 node0 outPlug context0 []
     = Inr [Opaque 7, String ''box'', Float 1, Float 1, Float 0, Opaque 2, V2i (Vec2 0 0)]"
    unfolding c1 p
    by (simp add: b base0_def h_append_def context0_def newSampler0_def box_filter_def)
  have hne: "height (box_filter ''box'' 1 1) \<noteq> height (box_filter ''box'' 2 2)"
    by (simp add: box_filter_def)
  have d: "hashChannelData base0 oiio0 newSampler0 64 node0 outPlug context0 []
     \<noteq> hashChannelData base0 oiio0 newSampler0 64 node1 outPlug context0 []"
  proof
    assume eq: "hashChannelData base0 oiio0 newSampler0 64 node0 outPlug context0 []
      = hashChannelData base0 oiio0 newSampler0 64 node1 outPlug context0 []"
    have pe: "requiredPasses node0 outPlug (box_filter ''box'' 1 1)
               = requiredPasses node1 outPlug (box_filter ''box'' 2 2)"
      by (simp only: p)
    have va: "requiredPasses node0 outPlug (box_filter ''box'' 1 1) AND Vertical \<noteq> 0"
      by (simp only: p) (simp add: Vertical_def)
    note a1 = c4 [THEN mp, OF conjI [OF eq refl]]
    note a2 = a1 [THEN conjunct2, THEN mp, OF pe]
    note a3 = a2 [THEN conjunct2, THEN conjunct1, THEN mp, OF va]
    from a3 [THEN conjunct1] hne show False by (rule notE [rotated])
  qed
  show ?thesis
    by (intro conjI) (rule r f r' f' v d)+
qed

section \<open>The horizontal pass and the vertical inputs\<close>

lemma requiredPasses_horizontalPassPlug:
  "debugPlug node \<noteq> SinglePass \<Longrightarrow> requiredPasses node horizontalPassPlug f = Horizontal"
  by (simp add: requiredPasses_def Let_def)

lemma createFilter_find:
  "createFilter oiio n fw ratio =
     (case find (\<lambda>fd. fd_name fd = filterName n ratio) (filterdescs oiio) of
        None \<Rightarrow> Inl (Exception (''Unknown filter \"'' @ filterName n ratio @ ''\"''))
      | Some fd \<Rightarrow> Inr (create oiio (filterName n ratio)
          (if vx fw > 0 then vx fw else fd_width fd * max 1 (vx ratio))
          (if vy fw > 0 then vy fw else fd_width fd * max 1 (vy ratio))))"
  by (simp add: createFilter_def createFilter_loop_find split: option.split)

lemma inputRegion_Horizontal_cong:
  assumes "width f = width f'" "vx ratio = vx ratio'" "vx offset = vx offset'"
  shows "inputRegion T origin Horizontal ratio offset f = inputRegion T origin Horizontal ratio' offset' f'"
  using assms by (simp add: inputRegion_def Let_def Horizontal_bits)

lemma tap_Horizontal_cong:
  assumes "xfilt f = xfilt f'" "vx ratio = vx ratio'"
  shows "tap_Horizontal f ratio s iXI iXF oPy fX a = tap_Horizontal f' ratio' s iXI iXF oPy fX a"
  using assms by (cases a) simp

lemma pixel_Horizontal_cong:
  assumes "xfilt f = xfilt f'" "vx ratio = vx ratio'" "vx radius = vx radius'"
  shows "pixel_Horizontal f ratio s radius iXI iXF oPy = pixel_Horizontal f' ratio' s radius' iXI iXF oPy"
proof -
  have "tap_Horizontal f ratio s iXI iXF oPy = tap_Horizontal f' ratio' s iXI iXF oPy"
    by (intro ext) (rule tap_Horizontal_cong [OF assms(1,2)])
  then show ?thesis
    using assms(3) by (simp add: pixel_Horizontal_def)
qed

lemma compute_Horizontal_cong:
  assumes "xfilt f = xfilt f'" "vx ratio = vx ratio'" "vx offset = vx offset'" "vx radius = vx radius'"
  shows "compute_Horizontal f ratio offset s radius tb t = compute_Horizontal f' ratio' offset' s radius' tb t"
  using assms(2,3)
  by (simp add: compute_Horizontal_def Let_def pixel_Horizontal_cong [OF assms(1,2,4)])

lemma computeTile_Horizontal_cong:
  assumes "xfilt f = xfilt f'" "width f = width f'" "vx ratio = vx ratio'" "vx offset = vx offset'"
  shows "computeTile T Horizontal ratio offset f s origin = computeTile T Horizontal ratio' offset' f' s origin"
proof -
  have "compute_Horizontal f ratio offset s
          (Vec2 \<lceil>width f / (2 * vx ratio)\<rceil> \<lceil>height f / (2 * vy ratio)\<rceil>) tb t =
        compute_Horizontal f' ratio' offset' s
          (Vec2 \<lceil>width f' / (2 * vx ratio')\<rceil> \<lceil>height f' / (2 * vy ratio')\<rceil>) tb t" for tb t
    by (rule compute_Horizontal_cong [OF assms(1) assms(3) assms(4)]) (simp add: assms(2,3))
  then show ?thesis
    by (simp add: computeTile_def Let_def passes_distinct)
qed

text \<open>
  C6 (amended). Take two configurations whose horizontal ratio and offset, filter
  name, requested horizontal filter width, bounding mode and debug mode agree, with a
  debug mode other than SinglePass, and for which \<open>createFilter\<close> selects the same
  kernel name (as it does whenever the filter name is not empty); they may differ in
  the vertical ratio and offset and in the requested filter height. If the name, the
  width and the horizontal response of a filter built by the factory do not depend on
  the height it is built with, then the hash and the pixel data computed for the
  intermediate horizontal-pass plug are identical for the two configurations.
\<close>

theorem horizontalPass_ignores_vertical:
  assumes factory: "\<forall>n w h h'. name (create oiio n w h) = name (create oiio n w h') \<and>
                      width (create oiio n w h) = width (create oiio n w h') \<and>
                      xfilt (create oiio n w h) = xfilt (create oiio n w h')"
    and r: "ratioAndOffset (dataWindowPlug node) (inPlug_dataWindowPlug node) = Inr (ratio, offset)"
    and r': "ratioAndOffset (dataWindowPlug node') (inPlug_dataWindowPlug node') = Inr (ratio', offset')"
    and rx: "vx ratio = vx ratio'" and ox: "vx offset = vx offset'"
    and fp: "filterPlug node = filterPlug node'"
    and fw: "vx (filterWidthPlug node) = vx (filterWidthPlug node')"
    and bm: "boundingModePlug node = boundingModePlug node'"
    and dbg: "debugPlug node = debugPlug node'" "debugPlug node \<noteq> SinglePass"
    and kernel: "filterName (filterPlug node) ratio = filterName (filterPlug node') ratio'"
  shows "hashChannelData base oiio newSampler tileSize node horizontalPassPlug context h =
         hashChannelData base oiio newSampler tileSize node' horizontalPassPlug context h \<and>
         computeChannelData oiio newSampler tileSize node channelName tileOrigin horizontalPassPlug =
         computeChannelData oiio newSampler tileSize node' channelName tileOrigin horizontalPassPlug"
proof (cases "find (\<lambda>fd. fd_name fd = filterName (filterPlug node) ratio) (filterdescs oiio)")
  case None
  have c: "createFilter oiio (filterPlug node) (filterWidthPlug node) ratio =
             Inl (Exception (''Unknown filter \"'' @ filterName (filterPlug node) ratio @ ''\"''))"
    using None by (simp add: createFilter_find)
  have c': "createFilter oiio (filterPlug node') (filterWidthPlug node') ratio' =
             Inl (Exception (''Unknown filter \"'' @ filterName (filterPlug node) ratio @ ''\"''))"
    using None kernel by (simp add: createFilter_find)
  show ?thesis
    by (simp add: hashChannelData_def computeChannelData_def r r' c c' Let_def)
next
  case (Some fd)
  define n where "n = filterName (filterPlug node) ratio"
  define wx where "wx = (if vx (filterWidthPlug node) > 0 then vx (filterWidthPlug node)
                         else fd_width fd * max 1 (vx ratio))"
  define wy where "wy = (if vy (filterWidthPlug node) > 0 then vy (filterWidthPlug node)
                         else fd_width fd * max 1 (vy ratio))"
  define wy' where "wy' = (if vy (filterWidthPlug node') > 0 then vy (filterWidthPlug node')
                           else fd_width fd * max 1 (vy ratio'))"
  define f where "f = create oiio n wx wy"
  define f' where "f' = create oiio n wx wy'"
  have c: "createFilter oiio (filterPlug node) (filterWidthPlug node) ratio = Inr f"
    using Some by (simp add: createFilter_find f_def n_def wx_def wy_def)
  have c': "createFilter oiio (filterPlug node') (filterWidthPlug node') ratio' = Inr f'"
    using Some kernel fw rx by (simp add: createFilter_find f'_def n_def wx_def wy'_def)
  have n: "name f = name f'" and w: "width f = width f'" and x: "xfilt f = xfilt f'"
    using factory unfolding f_def f'_def by blast+
  have p: "requiredPasses node horizontalPassPlug f = Horizontal"
    using dbg(2) by (rule requiredPasses_horizontalPassPlug)
  have p': "requiredPasses node' horizontalPassPlug f' = Horizontal"
    using dbg by (intro requiredPasses_horizontalPassPlug) simp
  have reg: "inputRegion tileSize origin Horizontal ratio offset f =
             inputRegion tileSize origin Horizontal ratio' offset' f'" for origin
    using w rx ox by (rule inputRegion_Horizontal_cong)
  have tile: "computeTile tileSize Horizontal ratio offset f s tileOrigin =
              computeTile tileSize Horizontal ratio' offset' f' s tileOrigin" for s
    using x w rx ox by (rule computeTile_Horizontal_cong)
  have H: "hashChannelData base oiio newSampler tileSize node horizontalPassPlug context h =
           hashChannelData base oiio newSampler tileSize node' horizontalPassPlug context h"
    unfolding hashChannelData_eq [OF r c] hashChannelData_eq [OF r' c'] Let_def p p'
    by (simp add: reg n w rx ox bm Horizontal_bits passes_distinct)
  have C: "computeChannelData oiio newSampler tileSize node channelName tileOrigin horizontalPassPlug =
           computeChannelData oiio newSampler tileSize node' channelName tileOrigin horizontalPassPlug"
    by (simp add: computeChannelData_def r r' c c' Let_def p p' reg tile bm passes_distinct)
  show ?thesis using H C by (rule conjI)
qed

lemma node5a_ratioAndOffset:
  "ratioAndOffset (dataWindowPlug node5a) (inPlug_dataWindowPlug node5a)
     = Inr (Vec2 (1 / 2) (1 / 2), Vec2 0 0)"
  by (simp add: ratioAndOffset_def node5a_def size_Box2f_def size_Box2i_def int32_def
      V2i_of_V2f_def float_to_int_def isEmpty_def V2f_def Let_def)

lemma node5b_ratioAndOffset:
  "ratioAndOffset (dataWindowPlug node5b) (inPlug_dataWindowPlug node5b)
     = Inr (Vec2 (1 / 2) 2, Vec2 0 0)"
  by (simp add: ratioAndOffset_def node5b_def node5a_def size_Box2f_def size_Box2i_def int32_def
      V2i_of_V2f_def float_to_int_def isEmpty_def V2f_def Let_def)

lemma node5a_createFilter:
  "createFilter oiio0 (filterPlug node5a) (filterWidthPlug node5a) (Vec2 (1 / 2) (1 / 2))
     = Inr (box_filter ''lanczos3'' 6 6)"
  by (simp add: createFilter_def filterName_def oiio0_def node5a_def)

lemma node5b_createFilter:
  "createFilter oiio0 (filterPlug node5b) (filterWidthPlug node5b) (Vec2 (1 / 2) 2)
     = Inr (box_filter ''blackman-harris'' 3 6)"
  by (simp add: createFilter_def filterName_def oiio0_def node5b_def node5a_def)

lemma node5_passes:
  "requiredPasses node5a horizontalPassPlug f = Horizontal"
  "requiredPasses node5b horizontalPassPlug f = Horizontal"
  by (simp_all add: requiredPasses_def node5b_def node5a_def Off_def HorizontalPass_def
      SinglePass_def)

lemma node5a_hash:
  "hashChannelData base0 oiio0 newSampler0 64 node5a horizontalPassPlug context0 []
     = Inr [Opaque 7, String ''lanczos3'', Float 6, Float (1 / 2), Float 0, Opaque 0,
            V2i (Vec2 0 0)]"
  unfolding hashChannelData_eq [OF node5a_ratioAndOffset node5a_createFilter] Let_def node5_passes
  by (simp add: Horizontal_bits passes_distinct base0_def h_append_def context0_def
      newSampler0_def box_filter_def)

lemma node5b_hash:
  "hashChannelData base0 oiio0 newSampler0 64 node5b horizontalPassPlug context0 []
     = Inr [Opaque 7, String ''blackman-harris'', Float 3, Float (1 / 2), Float 0, Opaque 0,
            V2i (Vec2 0 0)]"
  unfolding hashChannelData_eq [OF node5b_ratioAndOffset node5b_createFilter] Let_def node5_passes
  by (simp add: Horizontal_bits passes_distinct base0_def h_append_def context0_def
      newSampler0_def box_filter_def)

lemma upto_from_minus1:
  "[- 1 .. 6] = [- 1, 0, 1, 2, 3, 4, 5, 6 :: int]" "[- 1 .. 3] = [- 1, 0, 1, 2, 3 :: int]"
  by (simp_all add: upto.simps)

lemma node5a_pixel:
  "spec_average (spec_taps_Horizontal (box_filter ''lanczos3'' 6 6) (Vec2 (1 / 2) (1 / 2))
     (Vec2 0 0) (newSampler0 p c b m) (Vec2 6 6) 0 0) = 73 / 6"
  by (simp add: spec_average_def spec_taps_Horizontal_def box_filter_def newSampler0_def Let_def
      upto_from_minus1)

lemma node5b_pixel:
  "spec_average (spec_taps_Horizontal (box_filter ''blackman-harris'' 3 6) (Vec2 (1 / 2) 2)
     (Vec2 0 0) (newSampler0 p c b m) (Vec2 3 2) 0 0) = 19 / 6"
  by (simp add: spec_average_def spec_taps_Horizontal_def box_filter_def newSampler0_def Let_def
      upto_from_minus1)

lemma node5a_data:
  "map_sum id (\<lambda>t. resultData t ! 0)
     (computeChannelData oiio0 newSampler0 64 node5a ''R'' (Vec2 0 0) horizontalPassPlug)
     = Inr (73 / 6)"
proof -
  have i: "(0::nat) < nat 64" by simp
  have r: "\<lceil>width (box_filter ''lanczos3'' 6 6)\<rceil> = 6" "\<lceil>height (box_filter ''lanczos3'' 6 6)\<rceil> = 6"
    by (simp_all add: box_filter_def)
  show ?thesis
    using computeTile_pixel [OF i i, of Horizontal "Vec2 (1 / 2) (1 / 2)" "Vec2 0 0"
        "box_filter ''lanczos3'' 6 6" _ "Vec2 0 0"]
    by (simp add: computeChannelData_def node5a_ratioAndOffset node5a_createFilter node5_passes
        passes_distinct Let_def r node5a_pixel)
qed

lemma node5b_data:
  "map_sum id (\<lambda>t. resultData t ! 0)
     (computeChannelData oiio0 newSampler0 64 node5b ''R'' (Vec2 0 0) horizontalPassPlug)
     = Inr (19 / 6)"
proof -
  have i: "(0::nat) < nat 64" by simp
  have r: "\<lceil>width (box_filter ''blackman-harris'' 3 6)\<rceil> = 3"
    "\<lceil>height (box_filter ''blackman-harris'' 3 6) / 4\<rceil> = 2"
    by (rule ceiling_unique; simp add: box_filter_def)+
  show ?thesis
    using computeTile_pixel [OF i i, of Horizontal "Vec2 (1 / 2) 2" "Vec2 0 0"
        "box_filter ''blackman-harris'' 3 6" _ "Vec2 0 0"]
    by (simp add: computeChannelData_def node5b_ratioAndOffset node5b_createFilter node5_passes
        passes_distinct Let_def r node5b_pixel)
qed

text \<open>
  C6 as stated fails. With an empty filter name the default kernel is chosen from both
  ratios: \<open>node5a\<close> and \<open>node5b\<close> differ in the vertical extent of the destination
  window only, the first gets \<open>lanczos3\<close> and the second \<open>blackman-harris\<close>, and both
  the hash and the first pixel of the horizontal pass differ.
\<close>

theorem horizontalPass_depends_on_vertical_ratio:
  "node5b = node5a\<lparr> dataWindowPlug := Box (Vec2 0 0) (Vec2 0 3) \<rparr> \<and>
   ratioAndOffset (dataWindowPlug node5a) (inPlug_dataWindowPlug node5a)
     = Inr (Vec2 (1 / 2) (1 / 2), Vec2 0 0) \<and>
   ratioAndOffset (dataWindowPlug node5b) (inPlug_dataWindowPlug node5b)
     = Inr (Vec2 (1 / 2) 2, Vec2 0 0) \<and>
   hashChannelData base0 oiio0 newSampler0 64 node5a horizontalPassPlug context0 []
     = Inr [Opaque 7, String ''lanczos3'', Float 6, Float (1 / 2), Float 0, Opaque 0,
            V2i (Vec2 0 0)] \<and>
   hashChannelData base0 oiio0 newSampler0 64 node5b horizontalPassPlug context0 []
     = Inr [Opaque 7, String ''blackman-harris'', Float 3, Float (1 / 2), Float 0, Opaque 0,
            V2i (Vec2 0 0)] \<and>
   map_sum id (\<lambda>t. resultData t ! 0)
     (computeChannelData oiio0 newSampler0 64 node5a ''R'' (Vec2 0 0) horizontalPassPlug)
     = Inr (73 / 6) \<and>
   map_sum id (\<lambda>t. resultData t ! 0)
     (computeChannelData oiio0 newSampler0 64 node5b ''R'' (Vec2 0 0) horizontalPassPlug)
     = Inr (19 / 6)"
  by (intro conjI)
    (rule node5b_def node5a_ratioAndOffset node5b_ratioAndOffset node5a_hash node5b_hash
      node5a_data node5b_data)+

lemma node1_tall_ratioAndOffset:
  "ratioAndOffset (dataWindowPlug node1_tall) (inPlug_dataWindowPlug node1_tall)
     = Inr (Vec2 1 2, Vec2 0 0)"
  by (simp add: ratioAndOffset_def node1_tall_def node1_def node0_def size_Box2f_def size_Box2i_def int32_def
      V2i_of_V2f_def float_to_int_def isEmpty_def
      V2f_def Let_def)

theorem horizontalPass_ignores_vertical_witness:
  "(\<forall>n w h h'. name (create oiio0 n w h) = name (create oiio0 n w h') \<and>
                 width (create oiio0 n w h) = width (create oiio0 n w h') \<and>
                 xfilt (create oiio0 n w h) = xfilt (create oiio0 n w h')) \<and>
   ratioAndOffset (dataWindowPlug node1) (inPlug_dataWindowPlug node1) = Inr (Vec2 1 1, Vec2 0 0) \<and>
   ratioAndOffset (dataWindowPlug node1_tall) (inPlug_dataWindowPlug node1_tall)
     = Inr (Vec2 1 2, Vec2 0 0) \<and>
   filterWidthPlug node1 = Vec2 2 2 \<and> filterWidthPlug node1_tall = Vec2 2 5 \<and>
   debugPlug node1 \<noteq> SinglePass \<and>
   filterName (filterPlug node1) (Vec2 1 1) = filterName (filterPlug node1_tall) (Vec2 1 2) \<and>
   hashChannelData base0 oiio0 newSampler0 64 node1 horizontalPassPlug context0 [] =
   hashChannelData base0 oiio0 newSampler0 64 node1_tall horizontalPassPlug context0 [] \<and>
   computeChannelData oiio0 newSampler0 64 node1 ''R'' (Vec2 0 0) horizontalPassPlug =
   computeChannelData oiio0 newSampler0 64 node1_tall ''R'' (Vec2 0 0) horizontalPassPlug"
proof -
  have factory: "\<forall>n w h h'. name (create oiio0 n w h) = name (create oiio0 n w h') \<and>
                 width (create oiio0 n w h) = width (create oiio0 n w h') \<and>
                 xfilt (create oiio0 n w h) = xfilt (create oiio0 n w h')"
    by (simp add: oiio0_def box_filter_def)
  note r = node1_ratioAndOffset and r' = node1_tall_ratioAndOffset
  have rx: "vx (Vec2 1 1 :: V2f) = vx (Vec2 1 2 :: V2f)" and ox: "vx (Vec2 0 0 :: V2f) = vx (Vec2 0 0 :: V2f)"
    by simp_all
  have fp: "filterPlug node1 = filterPlug node1_tall"
    and fw: "vx (filterWidthPlug node1) = vx (filterWidthPlug node1_tall)"
    and bm: "boundingModePlug node1 = boundingModePlug node1_tall"
    and dbg: "debugPlug node1 = debugPlug node1_tall" "debugPlug node1 \<noteq> SinglePass"
    and w: "filterWidthPlug node1 = Vec2 2 2" "filterWidthPlug node1_tall = Vec2 2 5"
    by (simp_all add: node1_tall_def node1_def node0_def Off_def SinglePass_def)
  have kernel: "filterName (filterPlug node1) (Vec2 1 1) = filterName (filterPlug node1_tall) (Vec2 1 2)"
    by (simp add: filterName_def node1_tall_def node1_def node0_def)
  note concl = horizontalPass_ignores_vertical [OF factory r r' rx ox fp fw bm dbg kernel,
      of base0 newSampler0 64 context0 "[]" "''R''" "Vec2 0 0"]
  show ?thesis
    by (intro conjI)
      (rule factory r r' w dbg(2) kernel concl [THEN conjunct1] concl [THEN conjunct2])+
qed

section \<open>Two passes and the single pass\<close>

lemma node6_ratioAndOffset:
  "ratioAndOffset (dataWindowPlug node6) (inPlug_dataWindowPlug node6)
     = Inr (Vec2 2 2, Vec2 0 0)"
  by (simp add: ratioAndOffset_def node6_def size_Box2f_def size_Box2i_def int32_def
      V2i_of_V2f_def float_to_int_def isEmpty_def V2f_def Let_def)

lemma node6_createFilter:
  "createFilter oiio1 (filterPlug node6) (filterWidthPlug node6) (Vec2 2 2)
     = Inr (mitchell_filter ''mitchell'' (3 / 2) (3 / 2))"
  by (simp add: createFilter_def filterName_def c_str_def oiio1_def node6_def)

lemma node6_taps:
  "xfilt (mitchell_filter ''mitchell'' (3 / 2) (3 / 2)) (- (5 / 2)) = 0"
  "xfilt (mitchell_filter ''mitchell'' (3 / 2) (3 / 2)) (- (3 / 2)) = 0"
  "xfilt (mitchell_filter ''mitchell'' (3 / 2) (3 / 2)) (- (1 / 2)) = - 8 / 243"
  "xfilt (mitchell_filter ''mitchell'' (3 / 2) (3 / 2)) (1 / 2) = - 8 / 243"
  "xfilt (mitchell_filter ''mitchell'' (3 / 2) (3 / 2)) (3 / 2) = 0"
  "xfilt (mitchell_filter ''mitchell'' (3 / 2) (3 / 2)) (5 / 2) = 0"
  "yfilt (mitchell_filter ''mitchell'' (3 / 2) (3 / 2)) (- (5 / 2)) = 0"
  "yfilt (mitchell_filter ''mitchell'' (3 / 2) (3 / 2)) (- (3 / 2)) = 0"
  "yfilt (mitchell_filter ''mitchell'' (3 / 2) (3 / 2)) (- (1 / 2)) = - 8 / 243"
  "yfilt (mitchell_filter ''mitchell'' (3 / 2) (3 / 2)) (1 / 2) = - 8 / 243"
  "yfilt (mitchell_filter ''mitchell'' (3 / 2) (3 / 2)) (3 / 2) = 0"
  "yfilt (mitchell_filter ''mitchell'' (3 / 2) (3 / 2)) (5 / 2) = 0"
  by (simp_all add: mitchell_filter_def mitchell1d_def Let_def)

lemma node6_taps2:
  "call (mitchell_filter ''mitchell'' (3 / 2) (3 / 2)) x y =
     xfilt (mitchell_filter ''mitchell'' (3 / 2) (3 / 2)) x *
     yfilt (mitchell_filter ''mitchell'' (3 / 2) (3 / 2)) y"
  by (simp add: mitchell_filter_def)

lemma node6_weight_Horizontal:
  "spec_weight (spec_taps Horizontal (mitchell_filter ''mitchell'' (3 / 2) (3 / 2)) (Vec2 2 2)
      (Vec2 0 0) s (Vec2 1 1) ox oy) = - 8 / 243"
  by (simp add: spec_weight_def spec_taps_def spec_taps_Horizontal_def passes_distinct Let_def
      upto_radius1 doubled_floor doubled_frac node6_taps)

lemma node6_weight_Vertical:
  "spec_weight (spec_taps Vertical (mitchell_filter ''mitchell'' (3 / 2) (3 / 2)) (Vec2 2 2)
      (Vec2 0 0) s (Vec2 1 1) ox oy) = - 8 / 243"
  by (simp add: spec_weight_def spec_taps_def spec_taps_Vertical_def passes_distinct Let_def
      upto_radius1 doubled_floor doubled_frac node6_taps)

lemma node6_average_Both:
  "spec_average (spec_taps_Both (mitchell_filter ''mitchell'' (3 / 2) (3 / 2)) (Vec2 2 2)
      (Vec2 0 0) (newSampler1 inPlug c b m) (Vec2 1 1) ox oy) = 1"
  by (simp add: spec_average_def spec_taps_Both_def Let_def newSampler1_def
      upto_radius1 doubled_floor doubled_frac node6_taps node6_taps2)

lemma computeTile_all_zero:
  assumes "writes (computeTile tileSize passes ratio offset filter' sampler tileOrigin) = []"
  shows "resultData (computeTile tileSize passes ratio offset filter' sampler tileOrigin)
           = replicate (nat (tileSize * tileSize)) 0"
  by (rule nth_equalityI) (simp_all add: computeTile_length computeTile_unwritten assms)

lemma node6_radius:
  "\<lceil>width (mitchell_filter ''mitchell'' (3 / 2) (3 / 2)) / 4\<rceil> = 1"
  "\<lceil>height (mitchell_filter ''mitchell'' (3 / 2) (3 / 2)) / 4\<rceil> = 1"
  by (rule ceiling_unique; simp add: mitchell_filter_def)+

lemma node6_no_writes:
  assumes "passes = Horizontal \<or> passes = Vertical"
  shows "writes (computeTile 64 passes (Vec2 2 2) (Vec2 0 0)
           (mitchell_filter ''mitchell'' (3 / 2) (3 / 2)) s origin) = []"
proof -
  have p: "passes = Both \<or> passes = Horizontal \<or> passes = Vertical"
    using assms by blast
  have w: "spec_weight (spec_taps passes (mitchell_filter ''mitchell'' (3 / 2) (3 / 2)) (Vec2 2 2)
      (Vec2 0 0) s (Vec2 1 1) ox oy) = - 8 / 243" for ox oy
    using assms node6_weight_Horizontal node6_weight_Vertical by blast
  show ?thesis
    by (simp add: computeTile_writes [OF p] node6_radius w)
qed

lemma node6_passes:
  "requiredPasses node6 horizontalPassPlug (mitchell_filter ''mitchell'' (3 / 2) (3 / 2)) = Horizontal"
  "requiredPasses node6 outPlug (mitchell_filter ''mitchell'' (3 / 2) (3 / 2)) = Vertical"
  "requiredPasses node6_single outPlug (mitchell_filter ''mitchell'' (3 / 2) (3 / 2)) = Both"
  by (simp_all add: requiredPasses_def node6_single_def node6_def Off_def HorizontalPass_def SinglePass_def
      mitchell_filter_def Both_def)

text \<open>
  C2, evaluated at a failing input. The node \<open>node6\<close> doubles the image (ratio 2,
  offset 0) with the separable filter \<open>mitchell\<close> one and a half output pixels wide,
  so the filter radius is \<open>ceil (1.5 / 4) = 1\<close> source pixel. The centre of every
  output pixel lies a quarter of a source pixel from the nearest source pixel centre:
  on each axis the taps are evaluated at \<open>- 3 / 2\<close>, \<open>1 / 2\<close>, \<open>5 / 2\<close> or at
  \<open>- 5 / 2\<close>, \<open>- 1 / 2\<close>, \<open>3 / 2\<close> output pixels from the centre of the kernel. Only the
  tap at half a pixel is inside the support, in the negative lobe, and its
  one-dimensional weight is \<open>- 8 / 243\<close>. The horizontal pass and the vertical pass each
  find a weight sum that is not positive and store nothing, whatever the sampler
  returns: both tiles are all zero. The combined pass of the SinglePass debug mode
  multiplies the two weights, finds the positive weight sum \<open>64 / 59049\<close> and stores
  the source sample, which is 1.
\<close>

theorem two_pass_differs_from_single_pass:
  "map_sum id resultData
     (computeChannelData oiio1 newSampler1 64 node6 ''R'' (Vec2 0 0) horizontalPassPlug)
     = Inr (replicate 4096 0) \<and>
   map_sum id resultData
     (computeChannelData oiio1 newSampler1 64 node6 ''R'' (Vec2 0 0) outPlug)
     = Inr (replicate 4096 0) \<and>
   map_sum id (\<lambda>t. resultData t ! 0)
     (computeChannelData oiio1 newSampler1 64 node6_single ''R'' (Vec2 0 0) outPlug)
     = Inr 1"
proof (intro conjI)
  show "map_sum id resultData
     (computeChannelData oiio1 newSampler1 64 node6 ''R'' (Vec2 0 0) horizontalPassPlug)
     = Inr (replicate 4096 0)"
    by (simp add: computeChannelData_def node6_ratioAndOffset node6_createFilter
        node6_passes Let_def computeTile_all_zero node6_no_writes)
  show "map_sum id resultData
     (computeChannelData oiio1 newSampler1 64 node6 ''R'' (Vec2 0 0) outPlug)
     = Inr (replicate 4096 0)"
    by (simp add: computeChannelData_def node6_ratioAndOffset node6_createFilter
        node6_passes Let_def computeTile_all_zero node6_no_writes)
  have i: "(0::nat) < nat 64" by simp
  have r: "ratioAndOffset (dataWindowPlug node6_single) (inPlug_dataWindowPlug node6_single)
             = Inr (Vec2 2 2, Vec2 0 0)"
    using node6_ratioAndOffset by (simp add: node6_single_def)
  have f: "createFilter oiio1 (filterPlug node6_single) (filterWidthPlug node6_single) (Vec2 2 2)
             = Inr (mitchell_filter ''mitchell'' (3 / 2) (3 / 2))"
    using node6_createFilter by (simp add: node6_single_def)
  show "map_sum id (\<lambda>t. resultData t ! 0)
     (computeChannelData oiio1 newSampler1 64 node6_single ''R'' (Vec2 0 0) outPlug)
     = Inr 1"
    using computeTile_pixel [OF i i, of Both "Vec2 2 2" "Vec2 0 0"
        "mitchell_filter ''mitchell'' (3 / 2) (3 / 2)" _ "Vec2 0 0"]
    by (simp add: computeChannelData_def r f node6_passes passes_distinct Let_def
        node6_radius node6_average_Both)
qed

end
